theory Spec2Isabelle
  imports Complex_Main "HOL-Library.Sublist"
begin

section \<open>JavaScript values\<close>

text \<open>
  The relay is JavaScript: every value it reads is a JSON value or \<open>undefined\<close> (a
  property that is not there). Numbers are only ever tested for being zero and passed
  through, so a rational stands for the number. A string is the list of its code units,
  here the units below 256.
\<close>

datatype jsval =
    Undefined
  | Null
  | Bool bool
  | Num rat
  | Str string
  | Arr "jsval list"
  | Obj "(string \<times> jsval) list"

text \<open>ToBoolean: what \<open>!x\<close>, \<open>x && y\<close>, \<open>x || y\<close> and \<open>x ? a : b\<close> test.\<close>

fun truthy :: "jsval \<Rightarrow> bool" where
  "truthy Undefined = False"
| "truthy Null = False"
| "truthy (Bool b) = b"
| "truthy (Num r) = (r \<noteq> 0)"
| "truthy (Str s) = (s \<noteq> [])"
| "truthy (Arr vs) = True"
| "truthy (Obj kvs) = True"

text \<open>\<open>a || b\<close> is \<open>a\<close> when \<open>a\<close> is truthy and \<open>b\<close> otherwise.\<close>

definition js_or :: "jsval \<Rightarrow> jsval \<Rightarrow> jsval" where
  "js_or a b = (if truthy a then a else b)"

text \<open>
  The four request parameters are strings in the data model (airport codes and ISO
  dates); a parameter can also be absent or JSON \<open>null\<close>. A parameter of another JSON
  type is outside this model.
\<close>

datatype param = PUndefined | PNull | PStr string

fun val :: "param \<Rightarrow> jsval" where
  "val PUndefined = Undefined"
| "val PNull = Null"
| "val (PStr s) = Str s"

text \<open>ToString, as a template literal and \<open>String.prototype.includes\<close> apply it.\<close>

fun to_string :: "param \<Rightarrow> string" where
  "to_string PUndefined = ''undefined''"
| "to_string PNull = ''null''"
| "to_string (PStr s) = s"

text \<open>
  \<open>String.prototype.trim\<close> removes white space and line terminators at both ends;
  among the code units below 256 these are TAB, LF, VT, FF, CR, SP and NBSP.
\<close>

definition js_whitespace :: "char \<Rightarrow> bool" where
  "js_whitespace c \<longleftrightarrow>
     c \<in> {CHR 0x09, CHR 0x0A, CHR 0x0B, CHR 0x0C, CHR 0x0D, CHR 0x20, CHR 0xA0}"

definition trim :: "string \<Rightarrow> string" where
  "trim s = rev (dropWhile js_whitespace (rev (dropWhile js_whitespace s)))"

text \<open>\<open>s.includes(t)\<close> on strings: \<open>t\<close> occurs in \<open>s\<close> as a contiguous run.\<close>

fun includes_str :: "string \<Rightarrow> string \<Rightarrow> bool" where
  "includes_str [] t = (t = [])"
| "includes_str (c # cs) t = (prefix t (c # cs) \<or> includes_str cs t)"

text \<open>
  A thrown JavaScript error, as the \<open>catch\<close> block reads it: its message and, for a
  rejected HTTP call that got an answer, the answer's body (\<open>error.response?.data\<close>),
  of which the property \<open>error\<close> is read.
\<close>

record error_body =
  body_error :: param

record js_error =
  message :: string
  response_data :: "error_body option"

definition TypeError :: "string \<Rightarrow> js_error" where
  "TypeError m = \<lparr>message = m, response_data = None\<rparr>"

text \<open>
  \<open>x?.includes(t)\<close>: \<open>undefined\<close> when \<open>x\<close> is nullish; the substring test on a
  string; membership (SameValueZero against the string \<open>t\<close>) on an array; a number, a
  boolean or a plain object has no callable \<open>includes\<close>, and the call throws.
\<close>

fun opt_includes :: "jsval \<Rightarrow> string \<Rightarrow> js_error + jsval" where
  "opt_includes Undefined t = Inr Undefined"
| "opt_includes Null t = Inr Undefined"
| "opt_includes (Str s) t = Inr (Bool (includes_str s t))"
| "opt_includes (Arr vs) t = Inr (Bool (Str t \<in> set vs))"
| "opt_includes v t = Inl (TypeError ''leg.departure_airport?.name?.includes is not a function'')"

section \<open>The request, the outbound query and the provider's answer\<close>

text \<open>\<open>const { origin, destination, departure_date, return_date } = params\<close>\<close>

record params =
  origin :: param
  destination :: param
  departure_date :: param
  return_date :: param

text \<open>
  The object \<open>searchParams\<close> handed to \<open>axios.get\<close>. A key that a variant does not
  set is \<open>None\<close>.
\<close>

record search_params =
  engine :: string
  departure_id :: jsval
  arrival_id :: jsval
  outbound_date :: jsval
  q_type :: "string option"
  currency :: string
  hl :: string
  api_key :: string
  q_return_date :: "jsval option"

text \<open>One call \<open>axios.get(url, { params, timeout })\<close>.\<close>

record http_get =
  url :: string
  query :: search_params
  timeout :: nat

text \<open>
  The provider's body, at the shape the code reads it: two optional arrays of
  itineraries, each itinerary with an optional array \<open>flights\<close> of legs and a price, each
  leg with two optional airport objects. \<open>None\<close> is a property that is absent or
  \<open>null\<close>; the leaves are arbitrary JSON values. A body in which one of these arrays or
  objects is a value of another kind is outside this model; a \<open>null\<close> in place of a leg
  object is treated apart, below, for the loop body of server.js.
\<close>

record airport =
  airport_id :: jsval
  airport_name :: jsval
  airport_time :: jsval

record leg =
  departure_airport :: "airport option"
  arrival_airport :: "airport option"
  duration :: jsval
  airline :: jsval
  flight_number :: jsval

record emissions =
  this_flight :: jsval

record itinerary =
  flights :: "leg list option"
  price :: jsval
  carbon_emissions :: "emissions option"

record serp_data =
  best_flights :: "itinerary list option"
  other_flights :: "itinerary list option"
  price_insights :: jsval

section \<open>The result\<close>

text \<open>The seven-key object stored under \<open>outbound\<close> and \<open>return\<close>.\<close>

record leg_details =
  d_departure_time :: jsval
  d_arrival_time :: jsval
  d_departure_airport :: jsval
  d_arrival_airport :: jsval
  d_duration :: jsval
  d_airline :: jsval
  d_flight_number :: jsval

text \<open>
  One element of \<open>flights\<close> in the result. The keys \<open>type\<close>, \<open>price\<close>, \<open>airline\<close>,
  \<open>flight_number\<close> and \<open>stops\<close> are set on every path; the others only on some, and
  \<open>None\<close> is a key that was not set.
\<close>

record flight_result =
  r_type :: string
  r_price :: jsval
  r_airline :: jsval
  r_flight_number :: jsval
  r_stops :: int
  r_is_round_trip :: "jsval option"
  r_outbound :: "leg_details option"
  r_return :: "leg_details option"
  r_departure_time :: "jsval option"
  r_arrival_time :: "jsval option"
  r_departure_airport :: "jsval option"
  r_arrival_airport :: "jsval option"
  r_duration :: "jsval option"
  r_carbon_emissions :: "jsval option"

text \<open>The envelope \<open>searchFlights\<close> returns; \<open>None\<close> is a key that was not set.\<close>

record envelope =
  success :: bool
  error :: "string option"
  fallback_message :: "string option"
  serp_error :: "error_body option option"
  received :: "params option"
  route :: "string option"
  date :: "jsval option"
  e_return_date :: "jsval option"
  trip_type :: "string option"
  e_flights :: "flight_result list option"
  total_results :: "nat option"
  e_price_insights :: "jsval option"

text \<open>An object literal with the key \<open>success\<close> alone; the other keys are added by update.\<close>

definition envelope_of :: "bool \<Rightarrow> envelope" where
  "envelope_of s =
     \<lparr>success = s, error = None, fallback_message = None, serp_error = None,
      received = None, route = None, date = None, e_return_date = None,
      trip_type = None, e_flights = None, total_results = None,
      e_price_insights = None\<rparr>"

text \<open>A flight object with the five keys every path sets.\<close>

definition flight_of :: "string \<Rightarrow> jsval \<Rightarrow> jsval \<Rightarrow> jsval \<Rightarrow> int \<Rightarrow> flight_result" where
  "flight_of t p a fn s =
     \<lparr>r_type = t, r_price = p, r_airline = a, r_flight_number = fn, r_stops = s,
      r_is_round_trip = None, r_outbound = None, r_return = None,
      r_departure_time = None, r_arrival_time = None, r_departure_airport = None,
      r_arrival_airport = None, r_duration = None, r_carbon_emissions = None\<rparr>"

section \<open>Reading a leg\<close>

text \<open>\<open>leg.departure_airport?.id\<close> and its five siblings.\<close>

definition opt_chain :: "airport option \<Rightarrow> (airport \<Rightarrow> jsval) \<Rightarrow> jsval" where
  "opt_chain a f = (case a of None \<Rightarrow> Undefined | Some x \<Rightarrow> f x)"

definition dep_id :: "leg \<Rightarrow> jsval" where
  "dep_id l = opt_chain (departure_airport l) airport_id"

definition dep_name :: "leg \<Rightarrow> jsval" where
  "dep_name l = opt_chain (departure_airport l) airport_name"

definition dep_time :: "leg \<Rightarrow> jsval" where
  "dep_time l = opt_chain (departure_airport l) airport_time"

definition arr_id :: "leg \<Rightarrow> jsval" where
  "arr_id l = opt_chain (arrival_airport l) airport_id"

definition arr_time :: "leg \<Rightarrow> jsval" where
  "arr_time l = opt_chain (arrival_airport l) airport_time"

text \<open>
  The object literal of \<open>outbound\<close> and \<open>return\<close> (server.js 209-217, 220-228, 251-259
  and their copies at 299-345): the same seven keys each time, the airport defaults
  being the requested origin and destination in one order or the other.
\<close>

definition details :: "leg \<Rightarrow> jsval \<Rightarrow> jsval \<Rightarrow> leg_details" where
  "details l dep_default arr_default =
     \<lparr>d_departure_time = js_or (dep_time l) (Str ''N/A''),
      d_arrival_time = js_or (arr_time l) (Str ''N/A''),
      d_departure_airport = js_or (dep_id l) dep_default,
      d_arrival_airport = js_or (arr_id l) arr_default,
      d_duration = js_or (duration l) (Str ''N/A''),
      d_airline = js_or (airline l) (Str ''Unknown''),
      d_flight_number = js_or (flight_number l) (Str ''N/A'')\<rparr>"

section \<open>server.js: searchFlights\<close>

text \<open>
  \<open>return_date && return_date !== null && return_date !== 'null' && return_date.trim() !== ''\<close>:
  the value of the chain is its first falsy operand, or the last one.
\<close>

fun isRoundTrip :: "param \<Rightarrow> jsval" where
  "isRoundTrip PUndefined = Undefined"
| "isRoundTrip PNull = Null"
| "isRoundTrip (PStr s) =
     (if s = [] then Str []
      else if \<not> (s \<noteq> ''null'') then Bool False
      else Bool (trim s \<noteq> []))"

text \<open>The object \<open>searchParams\<close> (server.js 143-158).\<close>

definition searchParams :: "string \<Rightarrow> params \<Rightarrow> search_params" where
  "searchParams key p =
     \<lparr>engine = ''google_flights'',
      departure_id = val (origin p),
      arrival_id = val (destination p),
      outbound_date = val (departure_date p),
      q_type = Some (if truthy (isRoundTrip (return_date p)) then ''1'' else ''2''),
      currency = ''INR'',
      hl = ''en'',
      api_key = key,
      q_return_date =
        (if truthy (isRoundTrip (return_date p)) then Some (val (return_date p)) else None)\<rparr>"

definition the_call :: "string \<Rightarrow> params \<Rightarrow> http_get" where
  "the_call key p =
     \<lparr>url = ''https://serpapi.com/search'', query = searchParams key p, timeout = 30000\<rparr>"

text \<open>
  \<open>Array.prototype.find\<close> with the index passed to the callback; a callback that throws
  ends the search with its error.
\<close>

fun find_from :: "(leg \<Rightarrow> nat \<Rightarrow> js_error + bool) \<Rightarrow> leg list \<Rightarrow> nat \<Rightarrow> js_error + leg option" where
  "find_from cb [] i = Inr None"
| "find_from cb (l # ls) i =
     (case cb l i of
        Inl e \<Rightarrow> Inl e
      | Inr True \<Rightarrow> Inr (Some l)
      | Inr False \<Rightarrow> find_from cb ls (Suc i))"

text \<open>
  \<open>leg => leg.departure_airport?.id === origin || leg.departure_airport?.name?.includes(origin)\<close>,
  as the truth value \<open>find\<close> tests.
\<close>

definition outbound_cb :: "params \<Rightarrow> leg \<Rightarrow> nat \<Rightarrow> js_error + bool" where
  "outbound_cb p l idx =
     (if dep_id l = val (origin p) then Inr True
      else map_sum id truthy (opt_includes (dep_name l) (to_string (origin p))))"

text \<open>
  \<open>(leg, idx) => idx > 0 && (leg.departure_airport?.id === destination ||
  leg.arrival_airport?.id === origin || leg.departure_airport?.name?.includes(destination))\<close>
\<close>

definition return_cb :: "params \<Rightarrow> leg \<Rightarrow> nat \<Rightarrow> js_error + bool" where
  "return_cb p l idx =
     (if \<not> idx > 0 then Inr False
      else if dep_id l = val (destination p) then Inr True
      else if arr_id l = val (origin p) then Inr True
      else map_sum id truthy (opt_includes (dep_name l) (to_string (destination p))))"

text \<open>\<open>flight.flights.find(...) || flight.flights[0]\<close>\<close>

definition outboundLeg :: "params \<Rightarrow> leg list \<Rightarrow> js_error + leg" where
  "outboundLeg p legs =
     (case find_from (outbound_cb p) legs 0 of
        Inl e \<Rightarrow> Inl e
      | Inr (Some l) \<Rightarrow> Inr l
      | Inr None \<Rightarrow> Inr (legs ! 0))"

text \<open>\<open>flight.flights.find(...) || flight.flights[flight.flights.length - 1]\<close>\<close>

definition returnLeg :: "params \<Rightarrow> leg list \<Rightarrow> js_error + leg" where
  "returnLeg p legs =
     (case find_from (return_cb p) legs 0 of
        Inl e \<Rightarrow> Inl e
      | Inr (Some l) \<Rightarrow> Inr l
      | Inr None \<Rightarrow> Inr (legs ! (length legs - 1)))"

text \<open>
  The body of the \<open>forEach\<close> callback once the itinerary is known to have legs
  (server.js 180-260 with the tag \<open>'best'\<close>, 274-346 with the tag \<open>'other'\<close>; the two
  copies differ in the tag and in logging only).
\<close>

definition flightData :: "string \<Rightarrow> params \<Rightarrow> itinerary \<Rightarrow> leg list \<Rightarrow> js_error + flight_result" where
  "flightData tag p flight legs =
     (let rt = isRoundTrip (return_date p);
          price' = js_or (price flight) (Str ''N/A'')
      in
      if truthy rt \<and> length legs \<ge> 2 then
        (case outboundLeg p legs of
           Inl e \<Rightarrow> Inl e
         | Inr ob \<Rightarrow>
            (case returnLeg p legs of
               Inl e \<Rightarrow> Inl e
             | Inr rl \<Rightarrow>
                Inr ((flight_of tag price'
                        (js_or (airline ob) (Str ''Unknown''))
                        (js_or (flight_number ob) (Str ''N/A''))
                        (int (length legs) - 2))
                     \<lparr>r_is_round_trip := Some rt,
                      r_outbound := Some (details ob (val (origin p)) (val (destination p))),
                      r_return := Some (details rl (val (destination p)) (val (origin p)))\<rparr>)))
      else
        (let l = legs ! 0 in
         Inr ((flight_of tag price'
                 (js_or (airline l) (Str ''Unknown''))
                 (js_or (flight_number l) (Str ''N/A''))
                 (int (length legs) - 1))
              \<lparr>r_is_round_trip := Some rt,
               r_departure_time := Some (js_or (dep_time l) (Str ''N/A'')),
               r_arrival_time := Some (js_or (arr_time l) (Str ''N/A'')),
               r_duration := Some (js_or (duration l) (Str ''N/A'')),
               r_outbound := Some (details l (val (origin p)) (val (destination p)))\<rparr>)))"

text \<open>
  \<open>flight => { if (flight.flights && flight.flights.length > 0) { ...; flights.push(flightData) } }\<close>
  on the array \<open>flights\<close> built so far.
\<close>

definition push_flight :: "string \<Rightarrow> params \<Rightarrow> itinerary \<Rightarrow> flight_result list \<Rightarrow> js_error + flight_result list" where
  "push_flight tag p flight acc =
     (case flights flight of
        None \<Rightarrow> Inr acc
      | Some legs \<Rightarrow>
          if length legs > 0 then
            (case flightData tag p flight legs of
               Inl e \<Rightarrow> Inl e
             | Inr fd \<Rightarrow> Inr (acc @ [fd]))
          else Inr acc)"

text \<open>\<open>Array.prototype.forEach\<close> with a callback that may throw.\<close>

fun forEach :: "('a \<Rightarrow> 's \<Rightarrow> js_error + 's) \<Rightarrow> 'a list \<Rightarrow> 's \<Rightarrow> js_error + 's" where
  "forEach cb [] s = Inr s"
| "forEach cb (x # xs) s =
     (case cb x s of Inl e \<Rightarrow> Inl e | Inr s' \<Rightarrow> forEach cb xs s')"

text \<open>
  \<open>if (data.best_flights && data.best_flights.length > 0) data.best_flights.forEach(...)\<close>
\<close>

definition parse_best :: "params \<Rightarrow> serp_data \<Rightarrow> flight_result list \<Rightarrow> js_error + flight_result list" where
  "parse_best p data acc =
     (case best_flights data of
        None \<Rightarrow> Inr acc
      | Some fs \<Rightarrow> if length fs > 0 then forEach (push_flight ''best'' p) fs acc else Inr acc)"

text \<open>
  \<open>if (data.other_flights && data.other_flights.length > 0)
  data.other_flights.slice(0, 5).forEach(...)\<close>
\<close>

definition parse_other :: "params \<Rightarrow> serp_data \<Rightarrow> flight_result list \<Rightarrow> js_error + flight_result list" where
  "parse_other p data acc =
     (case other_flights data of
        None \<Rightarrow> Inr acc
      | Some fs \<Rightarrow>
          if length fs > 0 then forEach (push_flight ''other'' p) (take 5 fs) acc else Inr acc)"

text \<open>Lines 169-351: from \<open>const flights = []\<close> to the end of the second loop.\<close>

definition parse_flights :: "params \<Rightarrow> serp_data \<Rightarrow> js_error + flight_result list" where
  "parse_flights p data =
     (case parse_best p data [] of
        Inl e \<Rightarrow> Inl e
      | Inr acc \<Rightarrow> parse_other p data acc)"

text \<open>The \<open>catch\<close> block (server.js 367-384).\<close>

definition catch_envelope :: "params \<Rightarrow> js_error \<Rightarrow> envelope" where
  "catch_envelope p err =
     (envelope_of False)
       \<lparr>error := Some (message err),
        serp_error := Some (response_data err),
        fallback_message := Some (''Unable to fetch flights for '' @ to_string (origin p)
           @ '' to '' @ to_string (destination p) @ '' on '' @ to_string (departure_date p)
           @ ''. '' @
           (case response_data err of
              None \<Rightarrow> message err
            | Some b \<Rightarrow> if truthy (val (body_error b)) then to_string (body_error b)
                        else message err))\<rparr>"

text \<open>
  \<open>!SERP_API_KEY\<close> on the environment variable, which is a string or not set: the key
  when it is truthy.
\<close>

definition configured :: "string option \<Rightarrow> string option" where
  "configured k = (case k of None \<Rightarrow> None | Some key \<Rightarrow> if key = [] then None else Some key)"

definition missing_required :: "params \<Rightarrow> bool" where
  "missing_required p \<longleftrightarrow>
     \<not> truthy (val (origin p)) \<or> \<not> truthy (val (destination p))
       \<or> \<not> truthy (val (departure_date p))"

text \<open>
  \<open>searchFlights\<close> of server.js. \<open>SERP_API_KEY\<close> is the environment variable (\<open>None\<close>
  when it is not set), \<open>axios_get\<close> the provider: it answers a call with a body or
  rejects it. The function returns the envelope and the calls it made.
\<close>

definition searchFlights ::
    "string option \<Rightarrow> (http_get \<Rightarrow> js_error + serp_data) \<Rightarrow> params \<Rightarrow> envelope \<times> http_get list" where
  "searchFlights SERP_API_KEY axios_get p =
     (if missing_required p then
        ((envelope_of False)
           \<lparr>error := Some ''Missing required parameters: origin, destination, or departure_date''\<rparr>,
         [])
      else
        (case configured SERP_API_KEY of
           None \<Rightarrow>
             ((envelope_of False)
                \<lparr>error := Some ''SERP_API_KEY not configured'',
                 fallback_message := Some ''MCP server configuration error - API key missing''\<rparr>,
              [])
         | Some key \<Rightarrow>
             (case axios_get (the_call key p) of
                Inl err \<Rightarrow> (catch_envelope p err, [the_call key p])
              | Inr data \<Rightarrow>
                 (case parse_flights p data of
                    Inl err \<Rightarrow> (catch_envelope p err, [the_call key p])
                  | Inr fs \<Rightarrow>
                     ((envelope_of True)
                        \<lparr>route := Some (to_string (origin p) @ '' to '' @ to_string (destination p)),
                         date := Some (val (departure_date p)),
                         e_return_date := Some (js_or (val (return_date p)) Null),
                         trip_type := Some (if truthy (isRoundTrip (return_date p))
                                            then ''round-trip'' else ''one-way''),
                         e_flights := Some fs,
                         total_results := Some (length fs),
                         e_price_insights := Some (js_or (price_insights data) Null)\<rparr>,
                      [the_call key p])))))"

section \<open>server.js: the loop body on legs that may be null\<close>

text \<open>
  An element of the array \<open>flights\<close> of an itinerary can be JSON \<open>null\<close> where a leg object
  is expected. Reading a property of it throws a \<open>TypeError\<close>, which names the property.
  The loop body of server.js is given here once more on such an array, \<open>None\<close> being a
  \<open>null\<close> element; on an array of objects it is \<open>flightData\<close>.
\<close>

definition leg_object :: "string \<Rightarrow> leg option \<Rightarrow> js_error + leg" where
  "leg_object prop l =
     (case l of
        None \<Rightarrow>
          Inl (TypeError (''Cannot read properties of null (reading '' @ [CHR 0x27] @ prop
                 @ [CHR 0x27] @ '')''))
      | Some x \<Rightarrow> Inr x)"

text \<open>\<open>Array.prototype.find\<close> as in \<open>find_from\<close>, on elements of any type.\<close>

fun find_idx :: "('a \<Rightarrow> nat \<Rightarrow> js_error + bool) \<Rightarrow> 'a list \<Rightarrow> nat \<Rightarrow> js_error + 'a option" where
  "find_idx cb [] i = Inr None"
| "find_idx cb (x # xs) i =
     (case cb x i of
        Inl e \<Rightarrow> Inl e
      | Inr True \<Rightarrow> Inr (Some x)
      | Inr False \<Rightarrow> find_idx cb xs (Suc i))"

text \<open>The first callback reads \<open>leg.departure_airport\<close> at once.\<close>

definition outbound_cb_nullable :: "params \<Rightarrow> leg option \<Rightarrow> nat \<Rightarrow> js_error + bool" where
  "outbound_cb_nullable p l idx =
     (case leg_object ''departure_airport'' l of
        Inl e \<Rightarrow> Inl e
      | Inr x \<Rightarrow> outbound_cb p x idx)"

text \<open>The second callback tests \<open>idx > 0\<close> before it reads the leg.\<close>

definition return_cb_nullable :: "params \<Rightarrow> leg option \<Rightarrow> nat \<Rightarrow> js_error + bool" where
  "return_cb_nullable p l idx =
     (if \<not> idx > 0 then Inr False
      else (case leg_object ''departure_airport'' l of
              Inl e \<Rightarrow> Inl e
            | Inr x \<Rightarrow> return_cb p x idx))"

definition outboundLeg_nullable :: "params \<Rightarrow> leg option list \<Rightarrow> js_error + leg option" where
  "outboundLeg_nullable p legs =
     (case find_idx (outbound_cb_nullable p) legs 0 of
        Inl e \<Rightarrow> Inl e
      | Inr (Some l) \<Rightarrow> Inr l
      | Inr None \<Rightarrow> Inr (legs ! 0))"

definition returnLeg_nullable :: "params \<Rightarrow> leg option list \<Rightarrow> js_error + leg option" where
  "returnLeg_nullable p legs =
     (case find_idx (return_cb_nullable p) legs 0 of
        Inl e \<Rightarrow> Inl e
      | Inr (Some l) \<Rightarrow> Inr l
      | Inr None \<Rightarrow> Inr (legs ! (length legs - 1)))"

text \<open>
  After the two searches the round-trip branch reads \<open>outboundLeg.departure_airport\<close>,
  then \<open>returnLeg.departure_airport\<close>; the one-way branch reads \<open>leg.airline\<close> first.
\<close>

definition flightData_nullable ::
    "string \<Rightarrow> params \<Rightarrow> itinerary \<Rightarrow> leg option list \<Rightarrow> js_error + flight_result" where
  "flightData_nullable tag p flight legs =
     (let rt = isRoundTrip (return_date p);
          price' = js_or (price flight) (Str ''N/A'')
      in
      if truthy rt \<and> length legs \<ge> 2 then
        (case outboundLeg_nullable p legs of
           Inl e \<Rightarrow> Inl e
         | Inr ob_ref \<Rightarrow>
            (case returnLeg_nullable p legs of
               Inl e \<Rightarrow> Inl e
             | Inr rl_ref \<Rightarrow>
                (case leg_object ''departure_airport'' ob_ref of
                   Inl e \<Rightarrow> Inl e
                 | Inr ob \<Rightarrow>
                    (case leg_object ''departure_airport'' rl_ref of
                       Inl e \<Rightarrow> Inl e
                     | Inr rl \<Rightarrow>
                        Inr ((flight_of tag price'
                                (js_or (airline ob) (Str ''Unknown''))
                                (js_or (flight_number ob) (Str ''N/A''))
                                (int (length legs) - 2))
                             \<lparr>r_is_round_trip := Some rt,
                              r_outbound :=
                                Some (details ob (val (origin p)) (val (destination p))),
                              r_return :=
                                Some (details rl (val (destination p)) (val (origin p)))\<rparr>)))))
      else
        (case leg_object ''airline'' (legs ! 0) of
           Inl e \<Rightarrow> Inl e
         | Inr l \<Rightarrow>
            Inr ((flight_of tag price'
                    (js_or (airline l) (Str ''Unknown''))
                    (js_or (flight_number l) (Str ''N/A''))
                    (int (length legs) - 1))
                 \<lparr>r_is_round_trip := Some rt,
                  r_departure_time := Some (js_or (dep_time l) (Str ''N/A'')),
                  r_arrival_time := Some (js_or (arr_time l) (Str ''N/A'')),
                  r_duration := Some (js_or (duration l) (Str ''N/A'')),
                  r_outbound := Some (details l (val (origin p)) (val (destination p)))\<rparr>)))"

section \<open>The one-way variants\<close>

text \<open>
  The three other copies of the relay test an itinerary with
  \<open>flight.flights && flight.flights[0]\<close> and read the first leg only. None of them reads
  a property whose absence or type could throw, so their loops are plain folds.
\<close>

subsection \<open>part_000, first program (lines 110-218)\<close>

definition searchParams_p000a :: "string \<Rightarrow> params \<Rightarrow> search_params" where
  "searchParams_p000a key p =
     \<lparr>engine = ''google_flights'',
      departure_id = val (origin p),
      arrival_id = val (destination p),
      outbound_date = val (departure_date p),
      q_type = Some ''2'',
      currency = ''INR'',
      hl = ''en'',
      api_key = key,
      q_return_date = None\<rparr>"

definition the_call_p000a :: "string \<Rightarrow> params \<Rightarrow> http_get" where
  "the_call_p000a key p =
     \<lparr>url = ''https://serpapi.com/search'', query = searchParams_p000a key p, timeout = 30000\<rparr>"

text \<open>The callback of both loops (lines 160-174 and 179-193), which differ in the tag.\<close>

definition push_p000a :: "string \<Rightarrow> itinerary \<Rightarrow> flight_result list \<Rightarrow> flight_result list" where
  "push_p000a tag flight acc =
     (case flights flight of
        None \<Rightarrow> acc
      | Some legs \<Rightarrow>
         (case legs of
            [] \<Rightarrow> acc
          | firstLeg # rest \<Rightarrow>
             acc @ [(flight_of tag
                      (js_or (price flight) (Str ''N/A''))
                      (js_or (airline firstLeg) (Str ''Unknown''))
                      (js_or (flight_number firstLeg) (Str ''N/A''))
                      (int (length legs) - 1))
                    \<lparr>r_departure_time := Some (js_or (dep_time firstLeg) (Str ''N/A'')),
                     r_arrival_time := Some (js_or (arr_time firstLeg) (Str ''N/A'')),
                     r_duration := Some (js_or (duration firstLeg) (Str ''N/A''))\<rparr>]))"

definition parse_flights_p000a :: "serp_data \<Rightarrow> flight_result list" where
  "parse_flights_p000a data =
     (let best = (case best_flights data of
                    None \<Rightarrow> []
                  | Some fs \<Rightarrow> if length fs > 0 then fold (push_p000a ''best'') fs [] else [])
      in case other_flights data of
           None \<Rightarrow> best
         | Some fs \<Rightarrow>
             if length fs > 0 then fold (push_p000a ''other'') (take 5 fs) best else best)"

definition searchFlights_p000a ::
    "string option \<Rightarrow> (http_get \<Rightarrow> js_error + serp_data) \<Rightarrow> params \<Rightarrow> envelope \<times> http_get list" where
  "searchFlights_p000a SERP_API_KEY axios_get p =
     (if missing_required p then
        ((envelope_of False)
           \<lparr>error := Some ''Missing required parameters: origin, destination, or departure_date''\<rparr>,
         [])
      else
        (case configured SERP_API_KEY of
           None \<Rightarrow>
             ((envelope_of False)
                \<lparr>error := Some ''SERP_API_KEY not configured'',
                 fallback_message := Some ''MCP server configuration error - API key missing''\<rparr>,
              [])
         | Some key \<Rightarrow>
             (case axios_get (the_call_p000a key p) of
                Inl err \<Rightarrow>
                  ((envelope_of False)
                     \<lparr>error := Some (message err),
                      fallback_message := Some (''Unable to fetch flights for ''
                        @ to_string (origin p) @ '' to '' @ to_string (destination p)
                        @ '' on '' @ to_string (departure_date p)
                        @ ''. Error: '' @ message err)\<rparr>,
                   [the_call_p000a key p])
              | Inr data \<Rightarrow>
                  ((envelope_of True)
                     \<lparr>route := Some (to_string (origin p) @ '' to '' @ to_string (destination p)),
                      date := Some (val (departure_date p)),
                      e_flights := Some (parse_flights_p000a data),
                      total_results := Some (length (parse_flights_p000a data)),
                      e_price_insights := Some (js_or (price_insights data) Null)\<rparr>,
                   [the_call_p000a key p]))))"

subsection \<open>part_000, second program (lines 289-380)\<close>

text \<open>
  This copy checks the credential only; its query has no \<open>type\<close> key and always has the
  key \<open>return_date\<close>, holding \<open>return_date || undefined\<close>.
\<close>

definition searchParams_p000b :: "string \<Rightarrow> params \<Rightarrow> search_params" where
  "searchParams_p000b key p =
     \<lparr>engine = ''google_flights'',
      departure_id = val (origin p),
      arrival_id = val (destination p),
      outbound_date = val (departure_date p),
      q_type = None,
      currency = ''USD'',
      hl = ''en'',
      api_key = key,
      q_return_date = Some (js_or (val (return_date p)) Undefined)\<rparr>"

definition the_call_p000b :: "string \<Rightarrow> params \<Rightarrow> http_get" where
  "the_call_p000b key p =
     \<lparr>url = ''https://serpapi.com/search'', query = searchParams_p000b key p, timeout = 30000\<rparr>"

text \<open>\<open>flight.carbon_emissions?.this_flight\<close>\<close>

definition emitted :: "itinerary \<Rightarrow> jsval" where
  "emitted flight = (case carbon_emissions flight of None \<Rightarrow> Undefined | Some c \<Rightarrow> this_flight c)"

text \<open>Lines 326-341: the loop over \<open>best_flights\<close>.\<close>

definition push_best_p000b :: "itinerary \<Rightarrow> flight_result list \<Rightarrow> flight_result list" where
  "push_best_p000b flight acc =
     (case flights flight of
        None \<Rightarrow> acc
      | Some legs \<Rightarrow>
         (case legs of
            [] \<Rightarrow> acc
          | firstLeg # rest \<Rightarrow>
             acc @ [(flight_of ''best''
                      (js_or (price flight) (Str ''N/A''))
                      (js_or (airline firstLeg) (Str ''Unknown''))
                      (js_or (flight_number firstLeg) (Str ''N/A''))
                      (int (length legs) - 1))
                    \<lparr>r_departure_time := Some (js_or (dep_time firstLeg) (Str ''N/A'')),
                     r_arrival_time := Some (js_or (arr_time firstLeg) (Str ''N/A'')),
                     r_duration := Some (js_or (duration firstLeg) (Str ''N/A'')),
                     r_carbon_emissions := Some (js_or (emitted flight) (Str ''N/A''))\<rparr>]))"

text \<open>Lines 346-360: the loop over \<open>other_flights\<close>, the same keys as in the first program.\<close>

definition parse_flights_p000b :: "serp_data \<Rightarrow> flight_result list" where
  "parse_flights_p000b data =
     (let best = (case best_flights data of
                    None \<Rightarrow> []
                  | Some fs \<Rightarrow> if length fs > 0 then fold push_best_p000b fs [] else [])
      in case other_flights data of
           None \<Rightarrow> best
         | Some fs \<Rightarrow>
             if length fs > 0 then fold (push_p000a ''other'') (take 5 fs) best else best)"

definition searchFlights_p000b ::
    "string option \<Rightarrow> (http_get \<Rightarrow> js_error + serp_data) \<Rightarrow> params \<Rightarrow> envelope \<times> http_get list" where
  "searchFlights_p000b SERP_API_KEY axios_get p =
     (case configured SERP_API_KEY of
        None \<Rightarrow>
          ((envelope_of False)
             \<lparr>error := Some ''SERP_API_KEY not configured'',
              fallback_message := Some ''MCP server configuration error''\<rparr>,
           [])
      | Some key \<Rightarrow>
          (case axios_get (the_call_p000b key p) of
             Inl err \<Rightarrow>
               ((envelope_of False)
                  \<lparr>error := Some (message err),
                   fallback_message := Some (''Unable to fetch flights for ''
                     @ to_string (origin p) @ '' to '' @ to_string (destination p)
                     @ '' on '' @ to_string (departure_date p)
                     @ ''. Please check airport codes and date format.'')\<rparr>,
                [the_call_p000b key p])
           | Inr data \<Rightarrow>
               ((envelope_of True)
                  \<lparr>route := Some (to_string (origin p) @ '' to '' @ to_string (destination p)),
                   date := Some (val (departure_date p)),
                   e_flights := Some (parse_flights_p000b data),
                   total_results := Some (length (parse_flights_p000b data)),
                   e_price_insights := Some (js_or (price_insights data) Null)\<rparr>,
                [the_call_p000b key p])))"

subsection \<open>part_001 (lines 129-290)\<close>

definition searchParams_p001 :: "string \<Rightarrow> params \<Rightarrow> search_params" where
  "searchParams_p001 key p =
     \<lparr>engine = ''google_flights'',
      departure_id = val (origin p),
      arrival_id = val (destination p),
      outbound_date = val (departure_date p),
      q_type = Some ''2'',
      currency = ''INR'',
      hl = ''en'',
      api_key = key,
      q_return_date = None\<rparr>"

definition the_call_p001 :: "string \<Rightarrow> params \<Rightarrow> http_get" where
  "the_call_p001 key p =
     \<lparr>url = ''https://serpapi.com/search'', query = searchParams_p001 key p, timeout = 30000\<rparr>"

text \<open>Lines 186-210 (tag \<open>'best'\<close>, with \<open>carbon_emissions\<close>) and 220-237 (tag \<open>'other'\<close>).\<close>

definition flight_p001 :: "string \<Rightarrow> params \<Rightarrow> itinerary \<Rightarrow> leg list \<Rightarrow> leg \<Rightarrow> flight_result" where
  "flight_p001 tag p flight legs l =
     (flight_of tag
        (js_or (price flight) (Str ''N/A''))
        (js_or (airline l) (Str ''Unknown''))
        (js_or (flight_number l) (Str ''N/A''))
        (int (length legs) - 1))
     \<lparr>r_departure_time := Some (js_or (dep_time l) (Str ''N/A'')),
      r_arrival_time := Some (js_or (arr_time l) (Str ''N/A'')),
      r_departure_airport := Some (js_or (dep_id l) (val (origin p))),
      r_arrival_airport := Some (js_or (arr_id l) (val (destination p))),
      r_duration := Some (js_or (duration l) (Str ''N/A''))\<rparr>"

definition push_best_p001 :: "params \<Rightarrow> itinerary \<Rightarrow> flight_result list \<Rightarrow> flight_result list" where
  "push_best_p001 p flight acc =
     (case flights flight of
        None \<Rightarrow> acc
      | Some legs \<Rightarrow>
         (case legs of
            [] \<Rightarrow> acc
          | l # rest \<Rightarrow>
             acc @ [(flight_p001 ''best'' p flight legs l)
                    \<lparr>r_carbon_emissions := Some (js_or (emitted flight) Null)\<rparr>]))"

definition push_other_p001 :: "params \<Rightarrow> itinerary \<Rightarrow> flight_result list \<Rightarrow> flight_result list" where
  "push_other_p001 p flight acc =
     (case flights flight of
        None \<Rightarrow> acc
      | Some legs \<Rightarrow>
         (case legs of
            [] \<Rightarrow> acc
          | l # rest \<Rightarrow> acc @ [flight_p001 ''other'' p flight legs l]))"

definition parse_flights_p001 :: "params \<Rightarrow> serp_data \<Rightarrow> flight_result list" where
  "parse_flights_p001 p data =
     (let best = (case best_flights data of
                    None \<Rightarrow> []
                  | Some fs \<Rightarrow> if length fs > 0 then fold (push_best_p001 p) fs [] else [])
      in case other_flights data of
           None \<Rightarrow> best
         | Some fs \<Rightarrow>
             if length fs > 0 then fold (push_other_p001 p) (take 5 fs) best else best)"

definition searchFlights_p001 ::
    "string option \<Rightarrow> (http_get \<Rightarrow> js_error + serp_data) \<Rightarrow> params \<Rightarrow> envelope \<times> http_get list" where
  "searchFlights_p001 SERP_API_KEY axios_get p =
     (if missing_required p then
        ((envelope_of False)
           \<lparr>error := Some ''Missing required parameters: origin, destination, or departure_date'',
            received := Some p\<rparr>,
         [])
      else
        (case configured SERP_API_KEY of
           None \<Rightarrow>
             ((envelope_of False)
                \<lparr>error := Some ''SERP_API_KEY not configured'',
                 fallback_message := Some ''MCP server configuration error - API key missing''\<rparr>,
              [])
         | Some key \<Rightarrow>
             (case axios_get (the_call_p001 key p) of
                Inl err \<Rightarrow> (catch_envelope p err, [the_call_p001 key p])
              | Inr data \<Rightarrow>
                  if length (parse_flights_p001 p data) = 0 then
                    ((envelope_of False)
                       \<lparr>error := Some ''No flights found'',
                        fallback_message := Some (''No flights available for ''
                          @ to_string (origin p) @ '' to '' @ to_string (destination p)
                          @ '' on '' @ to_string (departure_date p)),
                        e_flights := Some [],
                        total_results := Some 0\<rparr>,
                     [the_call_p001 key p])
                  else
                    ((envelope_of True)
                       \<lparr>route := Some (to_string (origin p) @ '' to '' @ to_string (destination p)),
                        date := Some (val (departure_date p)),
                        e_flights := Some (parse_flights_p001 p data),
                        total_results := Some (length (parse_flights_p001 p data)),
                        e_price_insights := Some (js_or (price_insights data) Null)\<rparr>,
                     [the_call_p001 key p]))))"

section \<open>Vocabulary of the statements\<close>

text \<open>
  The definitions below are not part of the relay: they name what the statements about
  it talk about.
\<close>

text \<open>An itinerary gets a record when its \<open>flights\<close> array is there and not empty.\<close>

definition has_legs :: "itinerary \<Rightarrow> bool" where
  "has_legs it = (case flights it of None \<Rightarrow> False | Some legs \<Rightarrow> legs \<noteq> [])"

definition legs_of :: "itinerary \<Rightarrow> leg list" where
  "legs_of it = (case flights it of None \<Rightarrow> [] | Some legs \<Rightarrow> legs)"

text \<open>The two lists the loops run over: all of \<open>best_flights\<close>, the first five of
  \<open>other_flights\<close>; a list that is absent or \<open>null\<close> counts as empty.\<close>

definition bests :: "serp_data \<Rightarrow> itinerary list" where
  "bests data = (case best_flights data of None \<Rightarrow> [] | Some fs \<Rightarrow> fs)"

definition others :: "serp_data \<Rightarrow> itinerary list" where
  "others data = (case other_flights data of None \<Rightarrow> [] | Some fs \<Rightarrow> take 5 fs)"

definition flights_of :: "envelope \<Rightarrow> flight_result list" where
  "flights_of env = (case e_flights env of None \<Rightarrow> [] | Some fs \<Rightarrow> fs)"

definition surfaced :: "serp_data \<Rightarrow> itinerary list" where
  "surfaced data = filter has_legs (bests data @ others data)"

text \<open>The provider's answer with \<open>other_flights\<close> cut after its fifth element.\<close>

definition first_five :: "serp_data \<Rightarrow> serp_data" where
  "first_five data = data\<lparr>other_flights := map_option (take 5) (other_flights data)\<rparr>"

text \<open>
  The classification as the specification words it: round-trip when \<open>return_date\<close> is
  present, not \<open>null\<close>, not the literal string \<open>"null"\<close> and not blank.
\<close>

definition spec_round_trip :: "param \<Rightarrow> bool" where
  "spec_round_trip rd =
     (case rd of
        PUndefined \<Rightarrow> False
      | PNull \<Rightarrow> False
      | PStr s \<Rightarrow> s \<noteq> ''null'' \<and> \<not> list_all js_whitespace s)"

text \<open>A request parameter that is missing or empty: absent, \<open>null\<close> or the empty string.\<close>

definition absent_or_empty :: "param \<Rightarrow> bool" where
  "absent_or_empty x \<longleftrightarrow> x = PUndefined \<or> x = PNull \<or> x = PStr []"

text \<open>
  The values on which \<open>?.includes\<close> does not throw, and what the test on the departure
  airport's name then says: a substring test on a string, membership in an array.
\<close>

definition includable :: "jsval \<Rightarrow> bool" where
  "includable v =
     (case v of Undefined \<Rightarrow> True | Null \<Rightarrow> True | Str s \<Rightarrow> True | Arr vs \<Rightarrow> True
      | Bool b \<Rightarrow> False | Num r \<Rightarrow> False | Obj kvs \<Rightarrow> False)"

definition name_includes :: "leg \<Rightarrow> param \<Rightarrow> bool" where
  "name_includes l x =
     (case dep_name l of
        Str s \<Rightarrow> sublist (to_string x) s
      | Arr vs \<Rightarrow> Str (to_string x) \<in> set vs
      | Undefined \<Rightarrow> False | Null \<Rightarrow> False | Bool b \<Rightarrow> False | Num r \<Rightarrow> False
      | Obj kvs \<Rightarrow> False)"

text \<open>
  The legs claim C7 names: the first leg whose departure code is the origin, else the
  first leg; and the first leg after index zero whose departure code is the destination
  or whose arrival code is the origin, else the last leg.
\<close>

definition claimed_outbound :: "params \<Rightarrow> leg list \<Rightarrow> leg" where
  "claimed_outbound p legs =
     (case find (\<lambda>l. dep_id l = val (origin p)) legs of Some l \<Rightarrow> l | None \<Rightarrow> hd legs)"

definition claimed_return :: "params \<Rightarrow> leg list \<Rightarrow> leg" where
  "claimed_return p legs =
     (case find (\<lambda>l. dep_id l = val (destination p) \<or> arr_id l = val (origin p)) (tl legs) of
        Some l \<Rightarrow> l | None \<Rightarrow> last legs)"

text \<open>The same two selections with the test on the departure airport's name added.\<close>

definition selected_outbound :: "params \<Rightarrow> leg list \<Rightarrow> leg" where
  "selected_outbound p legs =
     (case find (\<lambda>l. dep_id l = val (origin p) \<or> name_includes l (origin p)) legs of
        Some l \<Rightarrow> l | None \<Rightarrow> hd legs)"

definition selected_return :: "params \<Rightarrow> leg list \<Rightarrow> leg" where
  "selected_return p legs =
     (case find (\<lambda>l. dep_id l = val (destination p) \<or> arr_id l = val (origin p)
                    \<or> name_includes l (destination p)) (tl legs) of
        Some l \<Rightarrow> l | None \<Rightarrow> last legs)"

text \<open>
  A surfaced value \<open>out\<close> drawn from the provider's \<open>src\<close> with the textual default \<open>d\<close>:
  the default when \<open>src\<close> is missing, \<open>src\<close> itself when it is truthy, the default for the
  other falsy values, and never \<open>undefined\<close> or \<open>null\<close>.
\<close>

definition textual_default :: "jsval \<Rightarrow> string \<Rightarrow> jsval \<Rightarrow> bool" where
  "textual_default src d out \<longleftrightarrow>
     (if src = Undefined \<or> src = Null then out = Str d
      else out = (if truthy src then src else Str d))
     \<and> out \<noteq> Undefined \<and> out \<noteq> Null"

text \<open>An optional key that is set, and holds a value drawn with its textual default.\<close>

definition set_default :: "jsval option \<Rightarrow> jsval \<Rightarrow> string \<Rightarrow> bool" where
  "set_default k src d = (case k of None \<Rightarrow> False | Some out \<Rightarrow> textual_default src d out)"

text \<open>
  An airport code \<open>out\<close> drawn from the provider's \<open>src\<close>: its default is a request
  parameter, the origin or the destination.
\<close>

definition code_default :: "jsval \<Rightarrow> param \<Rightarrow> jsval \<Rightarrow> bool" where
  "code_default src x out \<longleftrightarrow>
     (if src = Undefined \<or> src = Null then out = val x
      else out = (if truthy src then src else val x))
     \<and> out \<noteq> Undefined \<and> out \<noteq> Null"

definition set_code :: "jsval option \<Rightarrow> jsval \<Rightarrow> param \<Rightarrow> bool" where
  "set_code k src x = (case k of None \<Rightarrow> False | Some out \<Rightarrow> code_default src x out)"

text \<open>
  The object under \<open>outbound\<close> or \<open>return\<close> is there and draws its seven values from the
  leg \<open>l\<close>.
\<close>

definition leg_drawn :: "leg \<Rightarrow> param \<Rightarrow> param \<Rightarrow> leg_details option \<Rightarrow> bool" where
  "leg_drawn l dep arr k =
     (case k of
        None \<Rightarrow> False
      | Some d \<Rightarrow>
          textual_default (airline l) ''Unknown'' (d_airline d)
          \<and> textual_default (flight_number l) ''N/A'' (d_flight_number d)
          \<and> textual_default (duration l) ''N/A'' (d_duration d)
          \<and> textual_default (dep_time l) ''N/A'' (d_departure_time d)
          \<and> textual_default (arr_time l) ''N/A'' (d_arrival_time d)
          \<and> code_default (dep_id l) dep (d_departure_airport d)
          \<and> code_default (arr_id l) arr (d_arrival_airport d))"

text \<open>The price, the airline and the flight number of a record, which every path sets.\<close>

definition headline_drawn :: "itinerary \<Rightarrow> leg \<Rightarrow> flight_result \<Rightarrow> bool" where
  "headline_drawn it l fd \<longleftrightarrow>
     textual_default (price it) ''N/A'' (r_price fd)
     \<and> textual_default (airline l) ''Unknown'' (r_airline fd)
     \<and> textual_default (flight_number l) ''N/A'' (r_flight_number fd)"

text \<open>The two times and the duration at the top level of a record: all three are set.\<close>

definition times_drawn :: "leg \<Rightarrow> flight_result \<Rightarrow> bool" where
  "times_drawn l fd \<longleftrightarrow>
     set_default (r_departure_time fd) (dep_time l) ''N/A''
     \<and> set_default (r_arrival_time fd) (arr_time l) ''N/A''
     \<and> set_default (r_duration fd) (duration l) ''N/A''"

text \<open>
  What a record of server.js draws from its itinerary. In the round-trip branch (a
  round-trip search and at least two legs) the record has \<open>outbound\<close> and \<open>return\<close>, each
  drawn from a leg of the itinerary, and no time or duration at the top level; otherwise
  everything is drawn from the first leg and there is no \<open>return\<close>. The record has no
  airport code at the top level and no \<open>carbon_emissions\<close>.
\<close>

definition drawn_server :: "params \<Rightarrow> itinerary \<Rightarrow> flight_result \<Rightarrow> bool" where
  "drawn_server p it fd \<longleftrightarrow>
     (if spec_round_trip (return_date p) \<and> 2 \<le> length (legs_of it) then
        list_ex (\<lambda>l. headline_drawn it l fd
                     \<and> leg_drawn l (origin p) (destination p) (r_outbound fd)) (legs_of it)
        \<and> list_ex (\<lambda>l. leg_drawn l (destination p) (origin p) (r_return fd)) (legs_of it)
        \<and> r_departure_time fd = None \<and> r_arrival_time fd = None \<and> r_duration fd = None
      else
        headline_drawn it (hd (legs_of it)) fd
        \<and> times_drawn (hd (legs_of it)) fd
        \<and> leg_drawn (hd (legs_of it)) (origin p) (destination p) (r_outbound fd)
        \<and> r_return fd = None)
     \<and> r_departure_airport fd = None \<and> r_arrival_airport fd = None
     \<and> r_carbon_emissions fd = None"

text \<open>
  What a record of part_001 draws from its itinerary: everything from the first leg,
  with the times, the duration and the two airport codes set at the top level, and no
  \<open>outbound\<close> or \<open>return\<close>. A record tagged \<open>best\<close> also has \<open>carbon_emissions\<close>, which is
  the itinerary's value or \<open>null\<close>.
\<close>

definition drawn_p001 :: "params \<Rightarrow> itinerary \<Rightarrow> flight_result \<Rightarrow> bool" where
  "drawn_p001 p it fd \<longleftrightarrow>
     headline_drawn it (hd (legs_of it)) fd
     \<and> times_drawn (hd (legs_of it)) fd
     \<and> set_code (r_departure_airport fd) (dep_id (hd (legs_of it))) (origin p)
     \<and> set_code (r_arrival_airport fd) (arr_id (hd (legs_of it))) (destination p)
     \<and> r_outbound fd = None \<and> r_return fd = None
     \<and> r_carbon_emissions fd =
          (if r_type fd = ''best''
           then Some (if truthy (emitted it) then emitted it else Null) else None)"

text \<open>An element of the legs array that is an object whose departure airport name can be tested.\<close>

definition named_object :: "leg option \<Rightarrow> bool" where
  "named_object l = (case l of None \<Rightarrow> False | Some x \<Rightarrow> includable (dep_name x))"

section \<open>Sample inputs\<close>

text \<open>A provider that answers every call with the same body.\<close>

definition stub :: "serp_data \<Rightarrow> http_get \<Rightarrow> js_error + serp_data" where
  "stub data call = Inr data"

definition sample_airport :: "string \<Rightarrow> string \<Rightarrow> airport" where
  "sample_airport code t =
     \<lparr>airport_id = Str code, airport_name = Str (code @ '' International''), airport_time = Str t\<rparr>"

definition sample_leg :: "string \<Rightarrow> string \<Rightarrow> string \<Rightarrow> leg" where
  "sample_leg dep arr fn =
     \<lparr>departure_airport = Some (sample_airport dep ''2026-01-15 08:00''),
      arrival_airport = Some (sample_airport arr ''2026-01-15 10:10''),
      duration = Num 130, airline = Str ''IndiGo'', flight_number = Str fn\<rparr>"

definition one_leg_trip :: itinerary where
  "one_leg_trip =
     \<lparr>flights = Some [sample_leg ''BOM'' ''DEL'' ''6E 101''], price = Num 5000,
      carbon_emissions = None\<rparr>"

definition no_legs_trip :: itinerary where
  "no_legs_trip = \<lparr>flights = Some [], price = Num 4100, carbon_emissions = None\<rparr>"

definition three_leg_trip :: itinerary where
  "three_leg_trip =
     \<lparr>flights = Some [sample_leg ''BOM'' ''JAI'' ''6E 201'', sample_leg ''JAI'' ''DEL'' ''6E 202'',
                      sample_leg ''DEL'' ''BOM'' ''6E 203''],
      price = Undefined, carbon_emissions = None\<rparr>"

definition unlisted_legs_trip :: itinerary where
  "unlisted_legs_trip = \<lparr>flights = None, price = Num 3900, carbon_emissions = None\<rparr>"

definition sample_data :: serp_data where
  "sample_data =
     \<lparr>best_flights = Some [one_leg_trip, no_legs_trip],
      other_flights = Some [three_leg_trip, unlisted_legs_trip],
      price_insights = Undefined\<rparr>"

definition round_trip_request :: params where
  "round_trip_request =
     \<lparr>origin = PStr ''BOM'', destination = PStr ''DEL'',
      departure_date = PStr ''2026-01-15'', return_date = PStr ''2026-01-20''\<rparr>"

definition one_way_request :: params where
  "one_way_request =
     \<lparr>origin = PStr ''BOM'', destination = PStr ''DEL'',
      departure_date = PStr ''2026-01-15'', return_date = PUndefined\<rparr>"

definition request_without_origin :: params where
  "request_without_origin =
     \<lparr>origin = PUndefined, destination = PStr ''DEL'',
      departure_date = PStr ''2026-01-15'', return_date = PUndefined\<rparr>"

definition null_string_request :: params where
  "null_string_request =
     \<lparr>origin = PStr ''BOM'', destination = PStr ''DEL'',
      departure_date = PStr ''2026-01-15'', return_date = PStr ''null''\<rparr>"

definition blank_string_request :: params where
  "blank_string_request =
     \<lparr>origin = PStr ''BOM'', destination = PStr ''DEL'',
      departure_date = PStr ''2026-01-15'', return_date = PStr ''   ''\<rparr>"

text \<open>An itinerary of four legs whose airports carry city names, asked for by city.\<close>

definition city_leg :: "string \<Rightarrow> string \<Rightarrow> string \<Rightarrow> string \<Rightarrow> leg" where
  "city_leg dep dep_city arr fn =
     \<lparr>departure_airport =
        Some \<lparr>airport_id = Str dep, airport_name = Str (dep_city @ '' Airport''),
              airport_time = Str ''2026-01-15 08:00''\<rparr>,
      arrival_airport = Some (sample_airport arr ''2026-01-15 10:10''),
      duration = Num 95, airline = Str ''Air India'', flight_number = Str fn\<rparr>"

definition city_legs :: "leg list" where
  "city_legs =
     [city_leg ''PNQ'' ''Pune'' ''BOM'' ''AI 1'', city_leg ''BOM'' ''Mumbai'' ''DEL'' ''AI 2'',
      city_leg ''DEL'' ''Delhi'' ''JAI'' ''AI 3'', city_leg ''JAI'' ''Jaipur'' ''PNQ'' ''AI 4'']"

definition city_request :: params where
  "city_request =
     \<lparr>origin = PStr ''Mumbai'', destination = PStr ''Delhi'',
      departure_date = PStr ''2026-01-15'', return_date = PStr ''2026-01-20''\<rparr>"

text \<open>An answer whose only itinerary has two legs with every field missing.\<close>

definition bare_leg :: leg where
  "bare_leg =
     \<lparr>departure_airport = None, arrival_airport = None, duration = Undefined,
      airline = Undefined, flight_number = Null\<rparr>"

definition bare_data :: serp_data where
  "bare_data =
     \<lparr>best_flights =
        Some [\<lparr>flights = Some [bare_leg, bare_leg], price = Undefined, carbon_emissions = None\<rparr>],
      other_flights = None, price_insights = Undefined\<rparr>"

section \<open>Lemmas\<close>

subsection \<open>Evaluation on the samples\<close>

lemmas sample_defs = stub_def sample_data_def one_leg_trip_def no_legs_trip_def three_leg_trip_def unlisted_legs_trip_def
  sample_leg_def sample_airport_def round_trip_request_def one_way_request_def

lemmas model_defs = searchFlights_def missing_required_def configured_def the_call_def
  searchParams_def parse_flights_def parse_best_def parse_other_def push_flight_def
  flightData_def outboundLeg_def returnLeg_def outbound_cb_def return_cb_def
  dep_id_def dep_name_def dep_time_def arr_id_def arr_time_def opt_chain_def details_def
  flight_of_def envelope_of_def js_or_def trim_def js_whitespace_def

lemmas eval_defs = sample_defs model_defs flights_of_def

lemma sample_round_trip_succeeds:
  "success (fst (searchFlights (Some ''secret'') (stub sample_data) round_trip_request))"
  by (simp add: eval_defs)

lemmas p001_defs = searchFlights_p001_def missing_required_def configured_def the_call_p001_def
  searchParams_p001_def parse_flights_p001_def push_best_p001_def push_other_p001_def
  flight_p001_def emitted_def
  dep_id_def dep_name_def dep_time_def arr_id_def arr_time_def opt_chain_def
  flight_of_def envelope_of_def js_or_def

lemma sample_p001_succeeds:
  "success (fst (searchFlights_p001 (Some ''secret'') (stub sample_data) round_trip_request))"
  by (simp add: sample_defs p001_defs)

lemmas p000a_defs = searchFlights_p000a_def missing_required_def configured_def the_call_p000a_def
  searchParams_p000a_def parse_flights_p000a_def push_p000a_def
  dep_id_def dep_name_def dep_time_def arr_id_def arr_time_def opt_chain_def
  flight_of_def envelope_of_def js_or_def

lemma sample_one_way_succeeds:
  "success (fst (searchFlights (Some ''secret'') (stub sample_data) one_way_request))"
  by (simp add: eval_defs)

lemma sample_one_way_p000a_succeeds:
  "success (fst (searchFlights_p000a (Some ''secret'') (stub sample_data) one_way_request))"
  by (simp add: sample_defs p000a_defs)

lemma sample_one_way_p001_succeeds:
  "success (fst (searchFlights_p001 (Some ''secret'') (stub sample_data) one_way_request))"
  by (simp add: sample_defs p001_defs)

lemma bare_round_trip_succeeds:
  "success (fst (searchFlights (Some ''secret'') (stub bare_data) round_trip_request))"
  by (simp add: bare_data_def bare_leg_def stub_def round_trip_request_def model_defs Let_def)

lemma bare_p001_succeeds:
  "success (fst (searchFlights_p001 (Some ''secret'') (stub bare_data) round_trip_request))"
  by (simp add: bare_data_def bare_leg_def stub_def round_trip_request_def p001_defs)

lemmas city_defs = city_legs_def city_leg_def city_request_def sample_airport_def

lemmas select_defs = outboundLeg_def returnLeg_def outbound_cb_def return_cb_def
  dep_id_def dep_name_def arr_id_def opt_chain_def

subsection \<open>Trimming and the round-trip test\<close>

lemma trim_empty_iff: "trim s = [] \<longleftrightarrow> list_all js_whitespace s"
proof -
  have "trim s = [] \<longleftrightarrow> (\<forall>c \<in> set (dropWhile js_whitespace s). js_whitespace c)"
    by (simp add: trim_def dropWhile_eq_Nil_conv)
  also have "\<dots> \<longleftrightarrow> dropWhile js_whitespace s = []"
  proof
    assume a: "\<forall>c \<in> set (dropWhile js_whitespace s). js_whitespace c"
    show "dropWhile js_whitespace s = []"
    proof (rule ccontr)
      assume ne: "dropWhile js_whitespace s \<noteq> []"
      then have "\<not> js_whitespace (hd (dropWhile js_whitespace s))"
        by (rule hd_dropWhile)
      moreover have "hd (dropWhile js_whitespace s) \<in> set (dropWhile js_whitespace s)"
        using ne by (rule hd_in_set)
      ultimately show False using a by blast
    qed
  next
    assume "dropWhile js_whitespace s = []"
    then show "\<forall>c \<in> set (dropWhile js_whitespace s). js_whitespace c"
      by (simp del: dropWhile_eq_Nil_conv)
  qed
  also have "\<dots> \<longleftrightarrow> list_all js_whitespace s"
    by (simp add: dropWhile_eq_Nil_conv list_all_iff)
  finally show ?thesis .
qed

lemma isRoundTrip_truthy: "truthy (isRoundTrip rd) \<longleftrightarrow> spec_round_trip rd"
  by (cases rd) (auto simp: spec_round_trip_def trim_empty_iff)

subsection \<open>The loops of server.js\<close>

lemma push_flight_skip: "\<not> has_legs it \<Longrightarrow> push_flight tag p it acc = Inr acc"
  by (simp add: has_legs_def push_flight_def split: option.splits)

lemma push_flight_keep:
  "has_legs it \<Longrightarrow>
   push_flight tag p it acc = map_sum id (\<lambda>fd. acc @ [fd]) (flightData tag p it (legs_of it))"
  by (auto simp: has_legs_def legs_of_def push_flight_def split: option.splits sum.splits)

lemma forEach_push_flight:
  "forEach (push_flight tag p) fs acc = Inr r \<Longrightarrow>
   \<exists>rs. r = acc @ rs \<and>
     list_all2 (\<lambda>it fd. flightData tag p it (legs_of it) = Inr fd) (filter has_legs fs) rs"
proof (induction fs arbitrary: acc)
  case Nil
  then show ?case by simp
next
  case (Cons it fs)
  show ?case
  proof (cases "has_legs it")
    case False
    with Cons show ?thesis by (simp add: push_flight_skip)
  next
    case True
    with Cons.prems obtain fd where fd: "flightData tag p it (legs_of it) = Inr fd"
      and rest: "forEach (push_flight tag p) fs (acc @ [fd]) = Inr r"
      by (cases "flightData tag p it (legs_of it)") (simp_all add: push_flight_keep)
    from Cons.IH [OF rest] obtain rs where "r = (acc @ [fd]) @ rs"
      and "list_all2 (\<lambda>it fd. flightData tag p it (legs_of it) = Inr fd) (filter has_legs fs) rs"
      by blast
    with True fd show ?thesis by (intro exI [of _ "fd # rs"]) simp
  qed
qed

lemma parse_best_char:
  assumes "parse_best p data acc = Inr r"
  shows "\<exists>rs. r = acc @ rs \<and>
     list_all2 (\<lambda>it fd. flightData ''best'' p it (legs_of it) = Inr fd)
       (filter has_legs (bests data)) rs"
proof (cases "best_flights data")
  case None
  with assms show ?thesis by (simp add: parse_best_def bests_def)
next
  case (Some fs)
  show ?thesis
  proof (cases "fs = []")
    case True
    with Some assms show ?thesis by (simp add: parse_best_def bests_def)
  next
    case False
    with Some assms have "forEach (push_flight ''best'' p) fs acc = Inr r"
      by (simp add: parse_best_def)
    from forEach_push_flight [OF this] Some show ?thesis by (simp add: bests_def)
  qed
qed

lemma parse_other_char:
  assumes "parse_other p data acc = Inr r"
  shows "\<exists>rs. r = acc @ rs \<and>
     list_all2 (\<lambda>it fd. flightData ''other'' p it (legs_of it) = Inr fd)
       (filter has_legs (others data)) rs"
proof (cases "other_flights data")
  case None
  with assms show ?thesis by (simp add: parse_other_def others_def)
next
  case (Some fs)
  show ?thesis
  proof (cases "fs = []")
    case True
    with Some assms show ?thesis by (simp add: parse_other_def others_def)
  next
    case False
    with Some assms have "forEach (push_flight ''other'' p) (take 5 fs) acc = Inr r"
      by (simp add: parse_other_def)
    from forEach_push_flight [OF this] Some show ?thesis by (simp add: others_def)
  qed
qed

lemma parse_flights_char:
  assumes "parse_flights p data = Inr fs"
  shows "\<exists>bs os. fs = bs @ os
     \<and> list_all2 (\<lambda>it fd. flightData ''best'' p it (legs_of it) = Inr fd)
         (filter has_legs (bests data)) bs
     \<and> list_all2 (\<lambda>it fd. flightData ''other'' p it (legs_of it) = Inr fd)
         (filter has_legs (others data)) os"
proof -
  from assms obtain acc where b: "parse_best p data [] = Inr acc"
    and o: "parse_other p data acc = Inr fs"
    by (cases "parse_best p data []") (simp_all add: parse_flights_def)
  from parse_best_char [OF b] parse_other_char [OF o] show ?thesis by auto
qed

lemma catch_envelope_fails: "success (catch_envelope p err) = False"
  by (simp add: catch_envelope_def envelope_of_def)

lemma searchFlights_success:
  assumes "success (fst (searchFlights k ax p))"
  shows "\<exists>key data fs. configured k = Some key \<and> \<not> missing_required p
     \<and> ax (the_call key p) = Inr data \<and> parse_flights p data = Inr fs
     \<and> e_flights (fst (searchFlights k ax p)) = Some fs
     \<and> total_results (fst (searchFlights k ax p)) = Some (length fs)
     \<and> trip_type (fst (searchFlights k ax p)) =
          Some (if truthy (isRoundTrip (return_date p)) then ''round-trip'' else ''one-way'')
     \<and> snd (searchFlights k ax p) = [the_call key p]"
  using assms
  by (auto simp: searchFlights_def envelope_of_def catch_envelope_fails
           split: if_splits option.splits sum.splits)

lemma flightData_type: "flightData tag p it legs = Inr fd \<Longrightarrow> r_type fd = tag"
  by (auto simp: flightData_def Let_def flight_of_def split: if_splits sum.splits)

lemma flightData_stops:
  "flightData tag p it legs = Inr fd \<Longrightarrow>
   r_stops fd = (if truthy (isRoundTrip (return_date p)) \<and> 2 \<le> length legs
                 then int (length legs) - 2 else int (length legs) - 1)"
  by (auto simp: flightData_def Let_def flight_of_def split: if_splits sum.splits)

subsection \<open>The loops of the one-way variants\<close>

lemma fold_push_rel:
  assumes app: "\<And>x acc. push x acc = acc @ push x []"
    and skip: "\<And>x. \<not> keep x \<Longrightarrow> push x [] = []"
    and one: "\<And>x. keep x \<Longrightarrow> \<exists>y. push x [] = [y]"
  shows "\<exists>rs. fold push xs acc = acc @ rs
           \<and> list_all2 (\<lambda>x y. push x [] = [y]) (filter keep xs) rs"
proof (induction xs arbitrary: acc)
  case Nil
  show ?case by simp
next
  case (Cons x xs)
  show ?case
  proof (cases "keep x")
    case False
    then have "push x acc = acc" using app [of x acc] skip by simp
    with Cons [of acc] False show ?thesis by simp
  next
    case True
    then obtain y where y: "push x [] = [y]" using one by blast
    then have step: "push x acc = acc @ [y]" using app [of x acc] by simp
    from Cons [of "acc @ [y]"] obtain rs
      where "fold push xs (acc @ [y]) = (acc @ [y]) @ rs"
        and "list_all2 (\<lambda>x y. push x [] = [y]) (filter keep xs) rs"
      by blast
    with True y step show ?thesis by (intro exI [of _ "y # rs"]) simp
  qed
qed

lemma push_best_p001_app: "push_best_p001 p it acc = acc @ push_best_p001 p it []"
  by (simp add: push_best_p001_def split: option.splits list.splits)

lemma push_other_p001_app: "push_other_p001 p it acc = acc @ push_other_p001 p it []"
  by (simp add: push_other_p001_def split: option.splits list.splits)

lemma push_best_p001_skip: "\<not> has_legs it \<Longrightarrow> push_best_p001 p it [] = []"
  by (simp add: push_best_p001_def has_legs_def split: option.splits list.splits)

lemma push_other_p001_skip: "\<not> has_legs it \<Longrightarrow> push_other_p001 p it [] = []"
  by (simp add: push_other_p001_def has_legs_def split: option.splits list.splits)

lemma push_best_p001_one: "has_legs it \<Longrightarrow> \<exists>fd. push_best_p001 p it [] = [fd]"
  by (simp add: push_best_p001_def has_legs_def split: option.splits list.splits)

lemma push_other_p001_one: "has_legs it \<Longrightarrow> \<exists>fd. push_other_p001 p it [] = [fd]"
  by (simp add: push_other_p001_def has_legs_def split: option.splits list.splits)

lemma parse_flights_p001_char:
  "\<exists>bs os. parse_flights_p001 p data = bs @ os
     \<and> list_all2 (\<lambda>it fd. push_best_p001 p it [] = [fd]) (filter has_legs (bests data)) bs
     \<and> list_all2 (\<lambda>it fd. push_other_p001 p it [] = [fd]) (filter has_legs (others data)) os"
proof -
  define best where "best = (case best_flights data of None \<Rightarrow> []
       | Some fs \<Rightarrow> if length fs > 0 then fold (push_best_p001 p) fs [] else [])"
  have "best = fold (push_best_p001 p) (bests data) []"
    by (simp add: best_def bests_def split: option.splits)
  with fold_push_rel [of "push_best_p001 p" has_legs "bests data" "[]",
      OF push_best_p001_app push_best_p001_skip push_best_p001_one]
  have b: "list_all2 (\<lambda>it fd. push_best_p001 p it [] = [fd]) (filter has_legs (bests data)) best"
    by auto
  have "parse_flights_p001 p data = fold (push_other_p001 p) (others data) best"
    by (simp add: parse_flights_p001_def best_def others_def Let_def split: option.splits)
  with fold_push_rel [of "push_other_p001 p" has_legs "others data" best,
      OF push_other_p001_app push_other_p001_skip push_other_p001_one] b
  show ?thesis by auto
qed

lemma push_best_p001_stops:
  "push_best_p001 p it [] = [fd] \<Longrightarrow> r_type fd = ''best'' \<and> r_stops fd = int (length (legs_of it)) - 1"
  by (auto simp: push_best_p001_def flight_p001_def flight_of_def legs_of_def
      split: option.splits list.splits)

lemma push_other_p001_stops:
  "push_other_p001 p it [] = [fd] \<Longrightarrow> r_type fd = ''other'' \<and> r_stops fd = int (length (legs_of it)) - 1"
  by (auto simp: push_other_p001_def flight_p001_def flight_of_def legs_of_def
      split: option.splits list.splits)

lemma searchFlights_p001_success:
  assumes "success (fst (searchFlights_p001 k ax p))"
  shows "\<exists>key data. configured k = Some key \<and> \<not> missing_required p
     \<and> ax (the_call_p001 key p) = Inr data
     \<and> e_flights (fst (searchFlights_p001 k ax p)) = Some (parse_flights_p001 p data)
     \<and> total_results (fst (searchFlights_p001 k ax p)) = Some (length (parse_flights_p001 p data))
     \<and> snd (searchFlights_p001 k ax p) = [the_call_p001 key p]"
  using assms
  by (auto simp: searchFlights_p001_def envelope_of_def catch_envelope_fails
           split: if_splits option.splits sum.splits)

lemma list_all2_append_same:
  "list_all2 P xs bs \<Longrightarrow> list_all2 Q ys os \<Longrightarrow> (\<And>x y. P x y \<Longrightarrow> R x y) \<Longrightarrow> (\<And>x y. Q x y \<Longrightarrow> R x y)
   \<Longrightarrow> list_all2 R (xs @ ys) (bs @ os)"
  by (meson list_all2_appendI list_all2_mono)

lemma list_all2_imp_list_all:
  "list_all2 P xs ys \<Longrightarrow> (\<And>x y. P x y \<Longrightarrow> Q y) \<Longrightarrow> list_all Q ys"
  by (induction rule: list_all2_induct) auto

lemma push_p000a_app: "push_p000a tag it acc = acc @ push_p000a tag it []"
  by (simp add: push_p000a_def split: option.splits list.splits)

lemma push_p000a_skip: "\<not> has_legs it \<Longrightarrow> push_p000a tag it [] = []"
  by (simp add: push_p000a_def has_legs_def split: option.splits list.splits)

lemma push_p000a_one: "has_legs it \<Longrightarrow> \<exists>fd. push_p000a tag it [] = [fd]"
  by (simp add: push_p000a_def has_legs_def split: option.splits list.splits)

lemma push_p000a_type: "push_p000a tag it [] = [fd] \<Longrightarrow> r_type fd = tag"
  by (auto simp: push_p000a_def flight_of_def split: option.splits list.splits)

lemma parse_flights_p000a_char:
  "\<exists>bs os. parse_flights_p000a data = bs @ os
     \<and> list_all2 (\<lambda>it fd. push_p000a ''best'' it [] = [fd]) (filter has_legs (bests data)) bs
     \<and> list_all2 (\<lambda>it fd. push_p000a ''other'' it [] = [fd]) (filter has_legs (others data)) os"
proof -
  define best where "best = (case best_flights data of None \<Rightarrow> []
       | Some fs \<Rightarrow> if length fs > 0 then fold (push_p000a ''best'') fs [] else [])"
  have "best = fold (push_p000a ''best'') (bests data) []"
    by (simp add: best_def bests_def split: option.splits)
  with fold_push_rel [of "push_p000a ''best''" has_legs "bests data" "[]",
      OF push_p000a_app push_p000a_skip push_p000a_one]
  have b: "list_all2 (\<lambda>it fd. push_p000a ''best'' it [] = [fd]) (filter has_legs (bests data)) best"
    by auto
  have "parse_flights_p000a data = fold (push_p000a ''other'') (others data) best"
    by (simp add: parse_flights_p000a_def best_def others_def Let_def split: option.splits)
  with fold_push_rel [of "push_p000a ''other''" has_legs "others data" best,
      OF push_p000a_app push_p000a_skip push_p000a_one] b
  show ?thesis by auto
qed

lemma searchFlights_p000a_success:
  assumes "success (fst (searchFlights_p000a k ax p))"
  shows "\<exists>key data. configured k = Some key \<and> \<not> missing_required p
     \<and> ax (the_call_p000a key p) = Inr data
     \<and> e_flights (fst (searchFlights_p000a k ax p)) = Some (parse_flights_p000a data)
     \<and> total_results (fst (searchFlights_p000a k ax p)) = Some (length (parse_flights_p000a data))
     \<and> snd (searchFlights_p000a k ax p) = [the_call_p000a key p]"
  using assms
  by (auto simp: searchFlights_p000a_def envelope_of_def
           split: if_splits option.splits sum.splits)

subsection \<open>Failure envelopes carry no flights\<close>

lemma searchFlights_failed_flights:
  "\<not> success (fst (searchFlights k ax p)) \<Longrightarrow> flights_of (fst (searchFlights k ax p)) = []"
  by (auto simp: searchFlights_def envelope_of_def flights_of_def catch_envelope_def
           split: if_splits option.splits sum.splits)

lemma searchFlights_p000a_failed_flights:
  "\<not> success (fst (searchFlights_p000a k ax p)) \<Longrightarrow>
   flights_of (fst (searchFlights_p000a k ax p)) = []"
  by (auto simp: searchFlights_p000a_def envelope_of_def flights_of_def
           split: if_splits option.splits sum.splits)

lemma searchFlights_p001_failed_flights:
  "\<not> success (fst (searchFlights_p001 k ax p)) \<Longrightarrow>
   flights_of (fst (searchFlights_p001 k ax p)) = []"
  by (auto simp: searchFlights_p001_def envelope_of_def flights_of_def catch_envelope_def
           split: if_splits option.splits sum.splits)

lemma length_others: "length (others data) \<le> 5"
  by (simp add: others_def split: option.splits)

lemma count_other_bound:
  assumes "fs = bs @ os" "list_all (\<lambda>fd. r_type fd = ''best'') bs"
    and "list_all2 R (filter has_legs (others data)) os"
  shows "length (filter (\<lambda>fd. r_type fd = ''other'') fs) \<le> 5"
proof -
  have "filter (\<lambda>fd. r_type fd = ''other'') bs = []"
    using assms(2) by (auto simp: list_all_iff filter_empty_conv)
  then have "length (filter (\<lambda>fd. r_type fd = ''other'') fs) \<le> length os"
    using assms(1) by simp
  also have "length os = length (filter has_legs (others data))"
    using assms(3) by (simp add: list_all2_lengthD)
  also have "\<dots> \<le> length (others data)" by simp
  also have "\<dots> \<le> 5" by (rule length_others)
  finally show ?thesis .
qed

lemma other_count_server:
  "length (filter (\<lambda>fd. r_type fd = ''other'') (flights_of (fst (searchFlights k ax p)))) \<le> 5"
proof (cases "success (fst (searchFlights k ax p))")
  case False
  then show ?thesis by (simp add: searchFlights_failed_flights)
next
  case True
  from searchFlights_success [OF this] obtain data fs
    where pf: "parse_flights p data = Inr fs"
      and fl: "e_flights (fst (searchFlights k ax p)) = Some fs"
    by blast
  from parse_flights_char [OF pf] obtain bs os where fs: "fs = bs @ os"
    and b: "list_all2 (\<lambda>it fd. flightData ''best'' p it (legs_of it) = Inr fd)
         (filter has_legs (bests data)) bs"
    and o: "list_all2 (\<lambda>it fd. flightData ''other'' p it (legs_of it) = Inr fd)
         (filter has_legs (others data)) os"
    by blast
  have tb: "list_all (\<lambda>fd. r_type fd = ''best'') bs"
    by (rule list_all2_imp_list_all [OF b]) (rule flightData_type)
  from count_other_bound [OF fs tb o] fl show ?thesis by (simp add: flights_of_def)
qed

lemma other_count_p000a:
  "length (filter (\<lambda>fd. r_type fd = ''other'') (flights_of (fst (searchFlights_p000a k ax p)))) \<le> 5"
proof (cases "success (fst (searchFlights_p000a k ax p))")
  case False
  then show ?thesis by (simp add: searchFlights_p000a_failed_flights)
next
  case True
  from searchFlights_p000a_success [OF this] obtain data
    where fl: "e_flights (fst (searchFlights_p000a k ax p)) = Some (parse_flights_p000a data)"
    by blast
  from parse_flights_p000a_char [of data] obtain bs os
    where fs: "parse_flights_p000a data = bs @ os"
    and b: "list_all2 (\<lambda>it fd. push_p000a ''best'' it [] = [fd]) (filter has_legs (bests data)) bs"
    and o: "list_all2 (\<lambda>it fd. push_p000a ''other'' it [] = [fd]) (filter has_legs (others data)) os"
    by blast
  have tb: "list_all (\<lambda>fd. r_type fd = ''best'') bs"
    by (rule list_all2_imp_list_all [OF b]) (rule push_p000a_type)
  from count_other_bound [OF fs tb o] fl show ?thesis by (simp add: flights_of_def)
qed

lemma other_count_p001:
  "length (filter (\<lambda>fd. r_type fd = ''other'') (flights_of (fst (searchFlights_p001 k ax p)))) \<le> 5"
proof (cases "success (fst (searchFlights_p001 k ax p))")
  case False
  then show ?thesis by (simp add: searchFlights_p001_failed_flights)
next
  case True
  from searchFlights_p001_success [OF this] obtain data
    where fl: "e_flights (fst (searchFlights_p001 k ax p)) = Some (parse_flights_p001 p data)"
    by blast
  from parse_flights_p001_char [of p data] obtain bs os
    where fs: "parse_flights_p001 p data = bs @ os"
    and b: "list_all2 (\<lambda>it fd. push_best_p001 p it [] = [fd]) (filter has_legs (bests data)) bs"
    and o: "list_all2 (\<lambda>it fd. push_other_p001 p it [] = [fd]) (filter has_legs (others data)) os"
    by blast
  have tb: "list_all (\<lambda>fd. r_type fd = ''best'') bs"
    by (rule list_all2_imp_list_all [OF b]) (simp add: push_best_p001_stops)
  from count_other_bound [OF fs tb o] fl show ?thesis by (simp add: flights_of_def)
qed

lemma parse_best_first_five: "parse_best p (first_five data) acc = parse_best p data acc"
  by (simp add: parse_best_def first_five_def)

lemma parse_other_first_five: "parse_other p (first_five data) acc = parse_other p data acc"
  by (cases "other_flights data") (simp_all add: parse_other_def first_five_def)

lemma parse_flights_first_five: "parse_flights p (first_five data) = parse_flights p data"
  by (simp add: parse_flights_def parse_best_first_five parse_other_first_five split: sum.splits)

lemma parse_flights_p000a_first_five: "parse_flights_p000a (first_five data) = parse_flights_p000a data"
  by (cases "other_flights data") (simp_all add: parse_flights_p000a_def first_five_def Let_def)

lemma parse_flights_p001_first_five:
  "parse_flights_p001 p (first_five data) = parse_flights_p001 p data"
  by (cases "other_flights data") (simp_all add: parse_flights_p001_def first_five_def Let_def)

lemma price_insights_first_five: "price_insights (first_five data) = price_insights data"
  by (simp add: first_five_def)

lemma first_five_server:
  "searchFlights k (map_sum id first_five \<circ> ax) p = searchFlights k ax p"
proof (cases "configured k")
  case None
  then show ?thesis by (simp add: searchFlights_def)
next
  case (Some key)
  then show ?thesis
    by (cases "ax (the_call key p)")
       (simp_all add: searchFlights_def parse_flights_first_five price_insights_first_five
          split: sum.splits)
qed

lemma first_five_p000a:
  "searchFlights_p000a k (map_sum id first_five \<circ> ax) p = searchFlights_p000a k ax p"
proof (cases "configured k")
  case None
  then show ?thesis by (simp add: searchFlights_p000a_def)
next
  case (Some key)
  then show ?thesis
    by (cases "ax (the_call_p000a key p)")
       (simp_all add: searchFlights_p000a_def parse_flights_p000a_first_five price_insights_first_five)
qed

lemma first_five_p001:
  "searchFlights_p001 k (map_sum id first_five \<circ> ax) p = searchFlights_p001 k ax p"
proof (cases "configured k")
  case None
  then show ?thesis by (simp add: searchFlights_p001_def)
next
  case (Some key)
  then show ?thesis
    by (cases "ax (the_call_p001 key p)")
       (simp_all add: searchFlights_p001_def parse_flights_p001_first_five price_insights_first_five)
qed

subsection \<open>Validation and the credential\<close>

lemma falsy_param: "\<not> truthy (val x) \<longleftrightarrow> absent_or_empty x"
  by (cases x) (simp_all add: absent_or_empty_def)

lemma missing_required_iff:
  "missing_required p \<longleftrightarrow>
     absent_or_empty (origin p) \<or> absent_or_empty (destination p)
       \<or> absent_or_empty (departure_date p)"
  by (simp add: missing_required_def falsy_param)

lemma configured_None: "configured k = None \<longleftrightarrow> k = None \<or> k = Some []"
  by (simp add: configured_def split: option.splits)

lemma required_fields_validated:
  assumes "absent_or_empty (origin p) \<or> absent_or_empty (destination p)
             \<or> absent_or_empty (departure_date p)"
  shows "success (fst (searchFlights k ax p)) = False
       \<and> error (fst (searchFlights k ax p)) =
            Some ''Missing required parameters: origin, destination, or departure_date''
       \<and> snd (searchFlights k ax p) = []
       \<and> success (fst (searchFlights_p000a k ax p)) = False
       \<and> error (fst (searchFlights_p000a k ax p)) =
            Some ''Missing required parameters: origin, destination, or departure_date''
       \<and> snd (searchFlights_p000a k ax p) = []
       \<and> success (fst (searchFlights_p001 k ax p)) = False
       \<and> error (fst (searchFlights_p001 k ax p)) =
            Some ''Missing required parameters: origin, destination, or departure_date''
       \<and> snd (searchFlights_p001 k ax p) = []"
  using assms
  by (simp add: missing_required_iff searchFlights_def searchFlights_p000a_def
        searchFlights_p001_def envelope_of_def)

lemma calls_server:
  "snd (searchFlights k ax p) = [] \<or> (\<exists>key. snd (searchFlights k ax p) = [the_call key p])"
  by (auto simp: searchFlights_def split: option.splits sum.splits)

lemma return_date_iff_round_trip:
  "q_return_date (query (the_call key p)) =
     (if spec_round_trip (return_date p) then Some (val (return_date p)) else None)"
  by (simp add: the_call_def searchParams_def isRoundTrip_truthy)

subsection \<open>Choosing the outbound and the return leg\<close>

lemma includes_str_sublist: "includes_str s t \<longleftrightarrow> sublist t s"
  by (induction s) (simp_all add: sublist_Cons_right)

lemma outbound_cb_ok:
  "includable (dep_name l) \<Longrightarrow>
   outbound_cb p l i = Inr (dep_id l = val (origin p) \<or> name_includes l (origin p))"
  by (cases "dep_name l")
     (simp_all add: outbound_cb_def name_includes_def includable_def includes_str_sublist)

lemma return_cb_ok:
  "includable (dep_name l) \<Longrightarrow> 0 < i \<Longrightarrow>
   return_cb p l i = Inr (dep_id l = val (destination p) \<or> arr_id l = val (origin p)
                          \<or> name_includes l (destination p))"
  by (cases "dep_name l")
     (simp_all add: return_cb_def name_includes_def includable_def includes_str_sublist)

lemma find_from_find:
  assumes "\<And>l j. l \<in> set legs \<Longrightarrow> i \<le> j \<Longrightarrow> cb l j = Inr (Q l)"
  shows "find_from cb legs i = Inr (find Q legs)"
  using assms
proof (induction legs arbitrary: i)
  case Nil
  show ?case by simp
next
  case (Cons l legs)
  have "cb l i = Inr (Q l)" by (rule Cons.prems) simp_all
  moreover have "find_from cb legs (Suc i) = Inr (find Q legs)"
    by (rule Cons.IH) (simp add: Cons.prems)
  ultimately show ?case by simp
qed

lemma find_from_mem: "find_from cb legs i = Inr (Some l) \<Longrightarrow> l \<in> set legs"
  by (induction legs arbitrary: i) (auto split: sum.splits bool.splits)

lemma outboundLeg_selected:
  assumes "legs \<noteq> []" and "list_all (\<lambda>l. includable (dep_name l)) legs"
  shows "outboundLeg p legs = Inr (selected_outbound p legs)"
proof -
  have "find_from (outbound_cb p) legs 0
        = Inr (find (\<lambda>l. dep_id l = val (origin p) \<or> name_includes l (origin p)) legs)"
    by (rule find_from_find) (use assms(2) in \<open>simp add: list_all_iff outbound_cb_ok\<close>)
  with assms(1) show ?thesis
    by (simp add: outboundLeg_def selected_outbound_def hd_conv_nth split: option.splits)
qed

lemma returnLeg_selected:
  assumes "legs \<noteq> []" and "list_all (\<lambda>l. includable (dep_name l)) legs"
  shows "returnLeg p legs = Inr (selected_return p legs)"
proof -
  from assms(1) obtain l0 rest where legs: "legs = l0 # rest" by (cases legs) auto
  have "find_from (return_cb p) rest (Suc 0)
        = Inr (find (\<lambda>l. dep_id l = val (destination p) \<or> arr_id l = val (origin p)
                    \<or> name_includes l (destination p)) rest)"
    by (rule find_from_find) (use assms(2) legs in \<open>simp add: list_all_iff return_cb_ok\<close>)
  moreover have "return_cb p l0 0 = Inr False" by (simp add: return_cb_def)
  ultimately have "find_from (return_cb p) legs 0
        = Inr (find (\<lambda>l. dep_id l = val (destination p) \<or> arr_id l = val (origin p)
                    \<or> name_includes l (destination p)) (tl legs))"
    by (simp add: legs)
  with assms(1) show ?thesis
    by (simp add: returnLeg_def selected_return_def last_conv_nth split: option.splits)
qed

subsection \<open>Defaults\<close>

lemma textual_default_js_or: "d \<noteq> [] \<Longrightarrow> textual_default src d (js_or src (Str d))"
  by (cases src) (auto simp: textual_default_def js_or_def)

lemma code_default_js_or: "truthy (val x) \<Longrightarrow> code_default src x (js_or src (val x))"
  by (cases src) (auto simp: code_default_def js_or_def)

lemma leg_drawn_details:
  "truthy (val a) \<Longrightarrow> truthy (val b) \<Longrightarrow> leg_drawn l a b (Some (details l (val a) (val b)))"
  by (simp add: leg_drawn_def details_def textual_default_js_or code_default_js_or)

lemma required_present:
  "\<not> missing_required p \<Longrightarrow> truthy (val (origin p)) \<and> truthy (val (destination p))"
  by (simp add: missing_required_def)

lemma outboundLeg_mem: "outboundLeg p legs = Inr l \<Longrightarrow> legs \<noteq> [] \<Longrightarrow> l \<in> set legs"
  by (auto simp: outboundLeg_def split: sum.splits option.splits dest: find_from_mem)

lemma returnLeg_mem: "returnLeg p legs = Inr l \<Longrightarrow> legs \<noteq> [] \<Longrightarrow> l \<in> set legs"
  by (auto simp: returnLeg_def split: sum.splits option.splits dest: find_from_mem)

lemma has_legs_legs_of: "has_legs it \<Longrightarrow> legs_of it \<noteq> []"
  by (simp add: has_legs_def legs_of_def split: option.splits)

lemma flightData_drawn:
  assumes fd: "flightData tag p it (legs_of it) = Inr fd" and hl: "has_legs it"
    and req: "\<not> missing_required p"
  shows "drawn_server p it fd"
proof (cases "truthy (isRoundTrip (return_date p)) \<and> 2 \<le> length (legs_of it)")
  case True
  from hl have ne: "legs_of it \<noteq> []" by (rule has_legs_legs_of)
  from True fd obtain ob rl where ob: "outboundLeg p (legs_of it) = Inr ob"
    and rl: "returnLeg p (legs_of it) = Inr rl"
    and fd': "fd = (flight_of tag (js_or (price it) (Str ''N/A''))
                        (js_or (airline ob) (Str ''Unknown''))
                        (js_or (flight_number ob) (Str ''N/A''))
                        (int (length (legs_of it)) - 2))
                     \<lparr>r_is_round_trip := Some (isRoundTrip (return_date p)),
                      r_outbound := Some (details ob (val (origin p)) (val (destination p))),
                      r_return := Some (details rl (val (destination p)) (val (origin p)))\<rparr>"
    by (auto simp: flightData_def Let_def split: sum.splits)
  from ob ne have obm: "ob \<in> set (legs_of it)" by (rule outboundLeg_mem)
  from rl ne have rlm: "rl \<in> set (legs_of it)" by (rule returnLeg_mem)
  have h: "headline_drawn it ob fd"
    by (simp add: fd' headline_drawn_def flight_of_def textual_default_js_or)
  have o: "leg_drawn ob (origin p) (destination p) (r_outbound fd)"
    using required_present [OF req] by (simp add: fd' flight_of_def leg_drawn_details)
  have r: "leg_drawn rl (destination p) (origin p) (r_return fd)"
    using required_present [OF req] by (simp add: fd' flight_of_def leg_drawn_details)
  have u: "r_departure_time fd = None \<and> r_arrival_time fd = None \<and> r_duration fd = None
       \<and> r_departure_airport fd = None \<and> r_arrival_airport fd = None
       \<and> r_carbon_emissions fd = None"
    by (simp add: fd' flight_of_def)
  from True have c: "spec_round_trip (return_date p) \<and> 2 \<le> length (legs_of it)"
    by (simp add: isRoundTrip_truthy)
  have "list_ex (\<lambda>l. headline_drawn it l fd
                     \<and> leg_drawn l (origin p) (destination p) (r_outbound fd)) (legs_of it)"
    using obm h o by (auto simp: list_ex_iff)
  moreover have "list_ex (\<lambda>l. leg_drawn l (destination p) (origin p) (r_return fd)) (legs_of it)"
    using rlm r by (auto simp: list_ex_iff)
  ultimately show ?thesis using c u by (simp add: drawn_server_def)
next
  case False
  from hl have ne: "legs_of it \<noteq> []" by (rule has_legs_legs_of)
  then have hd: "legs_of it ! 0 = hd (legs_of it)" by (simp add: hd_conv_nth)
  from False fd have fd': "fd = (flight_of tag (js_or (price it) (Str ''N/A''))
                 (js_or (airline (hd (legs_of it))) (Str ''Unknown''))
                 (js_or (flight_number (hd (legs_of it))) (Str ''N/A''))
                 (int (length (legs_of it)) - 1))
              \<lparr>r_is_round_trip := Some (isRoundTrip (return_date p)),
               r_departure_time := Some (js_or (dep_time (hd (legs_of it))) (Str ''N/A'')),
               r_arrival_time := Some (js_or (arr_time (hd (legs_of it))) (Str ''N/A'')),
               r_duration := Some (js_or (duration (hd (legs_of it))) (Str ''N/A'')),
               r_outbound :=
                 Some (details (hd (legs_of it)) (val (origin p)) (val (destination p)))\<rparr>"
    by (auto simp: flightData_def Let_def hd)
  have h: "headline_drawn it (hd (legs_of it)) fd"
    by (simp add: fd' headline_drawn_def flight_of_def textual_default_js_or)
  have t: "times_drawn (hd (legs_of it)) fd"
    by (simp add: fd' times_drawn_def set_default_def flight_of_def textual_default_js_or)
  have o: "leg_drawn (hd (legs_of it)) (origin p) (destination p) (r_outbound fd)"
    using required_present [OF req] by (simp add: fd' flight_of_def leg_drawn_details)
  have u: "r_return fd = None \<and> r_departure_airport fd = None \<and> r_arrival_airport fd = None
       \<and> r_carbon_emissions fd = None"
    by (simp add: fd' flight_of_def)
  from False have c: "\<not> (spec_round_trip (return_date p) \<and> 2 \<le> length (legs_of it))"
    by (simp add: isRoundTrip_truthy)
  from c h t o u show ?thesis by (auto simp: drawn_server_def)
qed

lemma list_all2_filter_mono:
  assumes "list_all2 P (filter keep xs) ys" and "\<And>x y. keep x \<Longrightarrow> P x y \<Longrightarrow> Q x y"
  shows "list_all2 Q (filter keep xs) ys"
  using assms(1) by (rule list.rel_mono_strong) (simp add: assms(2))

lemma p001_drawn:
  assumes "push_best_p001 p it [] = [fd] \<or> push_other_p001 p it [] = [fd]"
    and req: "\<not> missing_required p"
  shows "drawn_p001 p it fd"
proof -
  from assms(1) obtain l rest where legs: "flights it = Some (l # rest)"
    and fd: "fd = flight_p001 ''best'' p it (l # rest) l
                    \<lparr>r_carbon_emissions := Some (js_or (emitted it) Null)\<rparr>
             \<or> fd = flight_p001 ''other'' p it (l # rest) l"
    by (auto simp: push_best_p001_def push_other_p001_def split: option.splits list.splits)
  from legs have hd: "hd (legs_of it) = l" by (simp add: legs_of_def)
  from fd have h: "headline_drawn it l fd"
    by (auto simp: headline_drawn_def flight_p001_def flight_of_def textual_default_js_or)
  from fd have t: "times_drawn l fd"
    by (auto simp: times_drawn_def set_default_def flight_p001_def flight_of_def
          textual_default_js_or)
  from fd required_present [OF req]
  have c: "set_code (r_departure_airport fd) (dep_id l) (origin p)
         \<and> set_code (r_arrival_airport fd) (arr_id l) (destination p)"
    by (auto simp: set_code_def flight_p001_def flight_of_def code_default_js_or)
  from fd have u: "r_outbound fd = None \<and> r_return fd = None"
    by (auto simp: flight_p001_def flight_of_def)
  from fd have e: "r_carbon_emissions fd =
          (if r_type fd = ''best''
           then Some (if truthy (emitted it) then emitted it else Null) else None)"
    by (auto simp: flight_p001_def flight_of_def js_or_def)
  from h t c u e show ?thesis by (simp add: drawn_p001_def hd)
qed

lemma flightData_total:
  assumes "legs \<noteq> []" and "list_all (\<lambda>l. includable (dep_name l)) legs"
  shows "\<exists>fd. flightData tag p it legs = Inr fd"
  using outboundLeg_selected [OF assms, of p] returnLeg_selected [OF assms, of p]
  by (simp add: flightData_def Let_def)

subsection \<open>Legs that may be null\<close>

lemma find_idx_outbound_objects:
  "find_idx (outbound_cb_nullable p) (map Some legs) i
     = map_sum id (map_option Some) (find_from (outbound_cb p) legs i)"
  by (induction legs arbitrary: i)
     (auto simp: outbound_cb_nullable_def leg_object_def split: sum.splits bool.splits)

lemma find_idx_return_objects:
  "find_idx (return_cb_nullable p) (map Some legs) i
     = map_sum id (map_option Some) (find_from (return_cb p) legs i)"
  by (induction legs arbitrary: i)
     (auto simp: return_cb_nullable_def return_cb_def leg_object_def
        split: sum.splits bool.splits)

lemma outboundLeg_nullable_objects:
  "legs \<noteq> [] \<Longrightarrow> outboundLeg_nullable p (map Some legs) = map_sum id Some (outboundLeg p legs)"
  by (auto simp: outboundLeg_nullable_def outboundLeg_def find_idx_outbound_objects
        split: sum.splits option.splits)

lemma returnLeg_nullable_objects:
  "legs \<noteq> [] \<Longrightarrow> returnLeg_nullable p (map Some legs) = map_sum id Some (returnLeg p legs)"
  by (auto simp: returnLeg_nullable_def returnLeg_def find_idx_return_objects
        split: sum.splits option.splits)

lemma flightData_nullable_objects:
  assumes "legs \<noteq> []"
  shows "flightData_nullable tag p it (map Some legs) = flightData tag p it legs"
proof -
  from assms have z: "map Some legs ! 0 = Some (legs ! 0)" by simp
  show ?thesis
    by (simp add: flightData_nullable_def flightData_def Let_def z leg_object_def
          outboundLeg_nullable_objects [OF assms] returnLeg_nullable_objects [OF assms]
          split: sum.splits)
qed

lemma named_objects_map:
  "list_all named_object refs \<Longrightarrow>
   \<exists>legs. refs = map Some legs \<and> list_all (\<lambda>l. includable (dep_name l)) legs"
proof (induction refs)
  case Nil
  show ?case by simp
next
  case (Cons r refs)
  then obtain l legs where "r = Some l" "includable (dep_name l)"
    and "refs = map Some legs" "list_all (\<lambda>l. includable (dep_name l)) legs"
    by (cases r) (auto simp: named_object_def)
  then show ?case by (intro exI [of _ "l # legs"]) simp
qed

lemma flightData_nullable_total:
  assumes "refs \<noteq> []" and "list_all named_object refs"
  shows "\<exists>fd. flightData_nullable tag p it refs = Inr fd"
proof -
  from named_objects_map [OF assms(2)] obtain legs where r: "refs = map Some legs"
    and n: "list_all (\<lambda>l. includable (dep_name l)) legs"
    by blast
  from assms(1) r have ne: "legs \<noteq> []" by auto
  from flightData_total [OF ne n, of tag p it] flightData_nullable_objects [OF ne, of tag p it] r
  show ?thesis by simp
qed

lemma has_legs_iff: "has_legs it \<longleftrightarrow> \<not> (flights it = None \<or> flights it = Some [])"
  by (simp add: has_legs_def split: option.splits)

section \<open>The claims\<close>

subsection \<open>C1: required fields are checked before the provider is called\<close>

text \<open>
  Claim C1 says that a request whose origin, destination or departure date is missing
  or empty gets a failure envelope and that the provider is not called. Lemma
  \<open>required_fields_validated\<close> above shows it for server.js, the first program of
  part_000 and part_001. The second program of part_000 (lines 289-298) checks the
  credential only: evaluated on a request without origin, with a credential set and a
  provider that answers, it calls the provider once and returns \<open>success: true\<close>.
\<close>

theorem p000b_calls_without_origin:
  "absent_or_empty (origin request_without_origin)
   \<and> success (fst (searchFlights_p000b (Some ''secret'') (stub sample_data) request_without_origin))
   \<and> snd (searchFlights_p000b (Some ''secret'') (stub sample_data) request_without_origin)
       = [the_call_p000b ''secret'' request_without_origin]"
  by (simp add: absent_or_empty_def request_without_origin_def searchFlights_p000b_def
        configured_def stub_def envelope_of_def)

subsection \<open>C2: the stop count\<close>

text \<open>
  Claim C2, as amended. In a successful result of server.js every record stands for one
  itinerary with legs, in the provider's order, and its \<open>stops\<close> is the number of legs
  minus two when the search is round-trip and the itinerary has at least two legs, and
  the number of legs minus one otherwise: so a round-trip itinerary with a single leg
  reports 0 stops, not -1. In part_001, which is one-way only, \<open>stops\<close> is always the
  number of legs minus one.
\<close>

theorem stops_count:
  "(success (fst (searchFlights k ax p)) \<longrightarrow>
      (\<exists>key data. ax (the_call key p) = Inr data \<and>
         list_all2
           (\<lambda>it fd. r_stops fd =
              (if spec_round_trip (return_date p) \<and> 2 \<le> length (legs_of it)
               then int (length (legs_of it)) - 2 else int (length (legs_of it)) - 1))
           (surfaced data) (flights_of (fst (searchFlights k ax p)))))
   \<and> (success (fst (searchFlights_p001 k ax p)) \<longrightarrow>
      (\<exists>key data. ax (the_call_p001 key p) = Inr data \<and>
         list_all2 (\<lambda>it fd. r_stops fd = int (length (legs_of it)) - 1)
           (surfaced data) (flights_of (fst (searchFlights_p001 k ax p)))))"
proof (intro conjI impI)
  assume "success (fst (searchFlights k ax p))"
  from searchFlights_success [OF this] obtain key data fs
    where ax: "ax (the_call key p) = Inr data" and pf: "parse_flights p data = Inr fs"
      and fl: "e_flights (fst (searchFlights k ax p)) = Some fs"
    by blast
  from parse_flights_char [OF pf] obtain bs os where fs: "fs = bs @ os"
    and b: "list_all2 (\<lambda>it fd. flightData ''best'' p it (legs_of it) = Inr fd)
         (filter has_legs (bests data)) bs"
    and o: "list_all2 (\<lambda>it fd. flightData ''other'' p it (legs_of it) = Inr fd)
         (filter has_legs (others data)) os"
    by blast
  have "list_all2
           (\<lambda>it fd. r_stops fd =
              (if spec_round_trip (return_date p) \<and> 2 \<le> length (legs_of it)
               then int (length (legs_of it)) - 2 else int (length (legs_of it)) - 1))
           (filter has_legs (bests data) @ filter has_legs (others data)) (bs @ os)"
    by (rule list_all2_append_same [OF b o]) (simp_all add: flightData_stops isRoundTrip_truthy)
  with ax fl fs show "\<exists>key data. ax (the_call key p) = Inr data \<and>
         list_all2
           (\<lambda>it fd. r_stops fd =
              (if spec_round_trip (return_date p) \<and> 2 \<le> length (legs_of it)
               then int (length (legs_of it)) - 2 else int (length (legs_of it)) - 1))
           (surfaced data) (flights_of (fst (searchFlights k ax p)))"
    by (auto simp: surfaced_def flights_of_def)
next
  assume "success (fst (searchFlights_p001 k ax p))"
  from searchFlights_p001_success [OF this] obtain key data
    where ax: "ax (the_call_p001 key p) = Inr data"
      and fl: "e_flights (fst (searchFlights_p001 k ax p)) = Some (parse_flights_p001 p data)"
    by blast
  from parse_flights_p001_char [of p data] obtain bs os
    where fs: "parse_flights_p001 p data = bs @ os"
    and b: "list_all2 (\<lambda>it fd. push_best_p001 p it [] = [fd]) (filter has_legs (bests data)) bs"
    and o: "list_all2 (\<lambda>it fd. push_other_p001 p it [] = [fd]) (filter has_legs (others data)) os"
    by blast
  have "list_all2 (\<lambda>it fd. r_stops fd = int (length (legs_of it)) - 1)
           (filter has_legs (bests data) @ filter has_legs (others data)) (bs @ os)"
    by (rule list_all2_append_same [OF b o]) (simp_all add: push_best_p001_stops push_other_p001_stops)
  with ax fl fs show "\<exists>key data. ax (the_call_p001 key p) = Inr data \<and>
         list_all2 (\<lambda>it fd. r_stops fd = int (length (legs_of it)) - 1)
           (surfaced data) (flights_of (fst (searchFlights_p001 k ax p)))"
    by (auto simp: surfaced_def flights_of_def)
qed

text \<open>The theorem at the sample answer, where both searches succeed.\<close>

theorem stops_count_witness:
  "success (fst (searchFlights (Some ''secret'') (stub sample_data) round_trip_request))
   \<and> success (fst (searchFlights_p001 (Some ''secret'') (stub sample_data) round_trip_request))
   \<and> (\<exists>key data. stub sample_data (the_call key round_trip_request) = Inr data \<and>
         list_all2
           (\<lambda>it fd. r_stops fd =
              (if spec_round_trip (return_date round_trip_request) \<and> 2 \<le> length (legs_of it)
               then int (length (legs_of it)) - 2 else int (length (legs_of it)) - 1))
           (surfaced data)
           (flights_of (fst (searchFlights (Some ''secret'') (stub sample_data) round_trip_request))))
   \<and> (\<exists>key data. stub sample_data (the_call_p001 key round_trip_request) = Inr data \<and>
         list_all2 (\<lambda>it fd. r_stops fd = int (length (legs_of it)) - 1)
           (surfaced data)
           (flights_of (fst (searchFlights_p001 (Some ''secret'') (stub sample_data) round_trip_request))))"
  using stops_count [of "Some ''secret''" "stub sample_data" round_trip_request]
    sample_round_trip_succeeds sample_p001_succeeds
  by blast

text \<open>
  The claim as stated fails: a round-trip search whose first itinerary has one leg
  reports 0 stops for it, where the claim's \<open>n - 2\<close> is -1.
\<close>

theorem stops_round_trip_single_leg:
  "trip_type (fst (searchFlights (Some ''secret'') (stub sample_data) round_trip_request))
     = Some ''round-trip''
   \<and> legs_of (surfaced sample_data ! 0) = [sample_leg ''BOM'' ''DEL'' ''6E 101'']
   \<and> r_stops (flights_of (fst (searchFlights (Some ''secret'') (stub sample_data) round_trip_request)) ! 0)
       = 0
   \<and> int (length (legs_of (surfaced sample_data ! 0))) - 2 = - 1"
  by (simp add: eval_defs surfaced_def bests_def others_def has_legs_def legs_of_def)

subsection \<open>C3: the round-trip classification\<close>

text \<open>
  Claim C3. The test of server.js on \<open>return_date\<close> is truthy exactly when \<open>return_date\<close>
  is present, not \<open>null\<close>, not the literal string \<open>"null"\<close> and not blank after trimming;
  every call the search makes carries the type \<open>'1'\<close> in that case and \<open>'2'\<close> otherwise,
  and a successful envelope says \<open>round-trip\<close> or \<open>one-way\<close> accordingly. The empty
  string, \<open>null\<close>, \<open>"null"\<close>, an absent value and a string of white space are all
  one-way.
\<close>

theorem round_trip_classification:
  "(truthy (isRoundTrip rd) \<longleftrightarrow> spec_round_trip rd)
   \<and> list_all (\<lambda>c. q_type (query c) =
                 Some (if spec_round_trip (return_date p) then ''1'' else ''2''))
        (snd (searchFlights k ax p))
   \<and> (success (fst (searchFlights k ax p)) \<longrightarrow>
        trip_type (fst (searchFlights k ax p)) =
          Some (if spec_round_trip (return_date p) then ''round-trip'' else ''one-way''))
   \<and> \<not> truthy (isRoundTrip (PStr [])) \<and> \<not> truthy (isRoundTrip PNull)
   \<and> \<not> truthy (isRoundTrip (PStr ''null'')) \<and> \<not> truthy (isRoundTrip PUndefined)
   \<and> (list_all js_whitespace s \<longrightarrow> \<not> truthy (isRoundTrip (PStr s)))"
proof (intro conjI impI)
  show "truthy (isRoundTrip rd) \<longleftrightarrow> spec_round_trip rd" by (rule isRoundTrip_truthy)
  show "list_all (\<lambda>c. q_type (query c) =
                 Some (if spec_round_trip (return_date p) then ''1'' else ''2''))
        (snd (searchFlights k ax p))"
    using calls_server [of k ax p]
    by (auto simp: the_call_def searchParams_def isRoundTrip_truthy)
  show "trip_type (fst (searchFlights k ax p)) =
          Some (if spec_round_trip (return_date p) then ''round-trip'' else ''one-way'')"
    if "success (fst (searchFlights k ax p))"
    using searchFlights_success [OF that] by (auto simp: isRoundTrip_truthy)
  show "\<not> truthy (isRoundTrip (PStr s))" if "list_all js_whitespace s"
    using that by (simp add: trim_empty_iff)
qed simp_all

text \<open>The theorem at the sample round-trip request and at a string of three spaces.\<close>

theorem round_trip_classification_witness:
  "success (fst (searchFlights (Some ''secret'') (stub sample_data) round_trip_request))
   \<and> list_all js_whitespace ''   ''
   \<and> truthy (isRoundTrip (PStr ''2026-01-20''))
   \<and> trip_type (fst (searchFlights (Some ''secret'') (stub sample_data) round_trip_request))
        = Some ''round-trip''
   \<and> snd (searchFlights (Some ''secret'') (stub sample_data) round_trip_request)
        = [the_call ''secret'' round_trip_request]
   \<and> q_type (query (the_call ''secret'' round_trip_request)) = Some ''1''
   \<and> \<not> truthy (isRoundTrip (PStr ''   ''))"
proof -
  have w: "list_all js_whitespace ''   ''" by (simp add: js_whitespace_def)
  have r: "spec_round_trip (PStr ''2026-01-20'')"
    by (simp add: spec_round_trip_def js_whitespace_def)
  have c: "snd (searchFlights (Some ''secret'') (stub sample_data) round_trip_request)
        = [the_call ''secret'' round_trip_request]"
    by (simp add: searchFlights_def missing_required_def configured_def stub_def
         round_trip_request_def split: sum.splits)
  from round_trip_classification [of "PStr ''2026-01-20''" round_trip_request "Some ''secret''"
      "stub sample_data" "''   ''"] sample_round_trip_succeeds w r c
  show ?thesis by (simp add: round_trip_request_def)
qed

subsection \<open>C4: at most five other flights\<close>

text \<open>
  Claim C4. In server.js, the first program of part_000 and part_001, the whole outcome
  of a search is the same when the provider's \<open>other_flights\<close> is cut after its fifth
  element, so no itinerary at index 5 or beyond reaches the result; and at most five
  records of the result are tagged \<open>other\<close>.
\<close>

theorem other_flights_capped:
  "searchFlights k (map_sum id first_five \<circ> ax) p = searchFlights k ax p
   \<and> searchFlights_p000a k (map_sum id first_five \<circ> ax) p = searchFlights_p000a k ax p
   \<and> searchFlights_p001 k (map_sum id first_five \<circ> ax) p = searchFlights_p001 k ax p
   \<and> length (filter (\<lambda>fd. r_type fd = ''other'') (flights_of (fst (searchFlights k ax p)))) \<le> 5
   \<and> length (filter (\<lambda>fd. r_type fd = ''other'')
        (flights_of (fst (searchFlights_p000a k ax p)))) \<le> 5
   \<and> length (filter (\<lambda>fd. r_type fd = ''other'')
        (flights_of (fst (searchFlights_p001 k ax p)))) \<le> 5"
  by (intro conjI first_five_server first_five_p000a first_five_p001
        other_count_server other_count_p000a other_count_p001)

subsection \<open>C5: a missing credential fails the search before any call\<close>

text \<open>
  Claim C5. When the three required fields are present and the credential is not set
  (or is empty), server.js, the second program of part_000 and part_001 return a
  failure envelope whose error is \<open>SERP_API_KEY not configured\<close>, with a
  configuration-error message, and make no call. The function returns this envelope:
  nothing is thrown.
\<close>

theorem credential_checked_before_call:
  assumes "k = None \<or> k = Some []"
    and "\<not> absent_or_empty (origin p)" "\<not> absent_or_empty (destination p)"
    and "\<not> absent_or_empty (departure_date p)"
  shows "success (fst (searchFlights k ax p)) = False
       \<and> error (fst (searchFlights k ax p)) = Some ''SERP_API_KEY not configured''
       \<and> fallback_message (fst (searchFlights k ax p))
            = Some ''MCP server configuration error - API key missing''
       \<and> snd (searchFlights k ax p) = []
       \<and> success (fst (searchFlights_p000b k ax p)) = False
       \<and> error (fst (searchFlights_p000b k ax p)) = Some ''SERP_API_KEY not configured''
       \<and> fallback_message (fst (searchFlights_p000b k ax p))
            = Some ''MCP server configuration error''
       \<and> snd (searchFlights_p000b k ax p) = []
       \<and> success (fst (searchFlights_p001 k ax p)) = False
       \<and> error (fst (searchFlights_p001 k ax p)) = Some ''SERP_API_KEY not configured''
       \<and> fallback_message (fst (searchFlights_p001 k ax p))
            = Some ''MCP server configuration error - API key missing''
       \<and> snd (searchFlights_p001 k ax p) = []"
proof -
  from assms(1) have c: "configured k = None" by (simp add: configured_None)
  from assms(2-4) have m: "\<not> missing_required p" by (simp add: missing_required_iff)
  from c m show ?thesis
    by (simp add: searchFlights_def searchFlights_p000b_def searchFlights_p001_def envelope_of_def)
qed

text \<open>The theorem at the sample one-way request with no credential in the environment.\<close>

theorem credential_checked_before_call_witness:
  "\<not> absent_or_empty (origin one_way_request)
   \<and> \<not> absent_or_empty (destination one_way_request)
   \<and> \<not> absent_or_empty (departure_date one_way_request)
   \<and> success (fst (searchFlights None (stub sample_data) one_way_request)) = False
   \<and> snd (searchFlights None (stub sample_data) one_way_request) = []
   \<and> success (fst (searchFlights_p000b None (stub sample_data) one_way_request)) = False
   \<and> snd (searchFlights_p000b None (stub sample_data) one_way_request) = []
   \<and> success (fst (searchFlights_p001 None (stub sample_data) one_way_request)) = False
   \<and> snd (searchFlights_p001 None (stub sample_data) one_way_request) = []"
proof -
  have h: "\<not> absent_or_empty (origin one_way_request)"
    "\<not> absent_or_empty (destination one_way_request)"
    "\<not> absent_or_empty (departure_date one_way_request)"
    by (simp_all add: absent_or_empty_def one_way_request_def)
  from credential_checked_before_call [of None one_way_request "stub sample_data", OF _ h] h
  show ?thesis by simp
qed

subsection \<open>C6: textual defaults for missing fields\<close>

text \<open>
  Claim C6, as amended. In a successful result of server.js and of part_001 every
  record is drawn from an itinerary with legs, and every value it draws from a leg
  object is there with its textual default: the airline defaults to \<open>Unknown\<close>; the
  flight number, the duration, the departure time and the arrival time default to
  \<open>N/A\<close>; an airport code defaults to the requested origin or destination; the
  itinerary's price defaults to \<open>N/A\<close>; none of these values is \<open>undefined\<close> or \<open>null\<close>.
  part_001 sets the times, the duration and the airport codes at the top level of every
  record; server.js sets \<open>outbound\<close> on every record and puts the times and the duration
  at the top level in its one-way branch, inside \<open>outbound\<close> and \<open>return\<close> in its
  round-trip branch. The \<open>carbon_emissions\<close> of part_001 is not defaulted to a text: a
  record tagged \<open>best\<close> carries the itinerary's value, or \<open>null\<close> when that is missing. No
  missing field of a leg object throws: on legs that are objects whose departure airport
  names are strings, arrays or missing the loop body of server.js returns a record, the
  one \<open>flightData\<close> gives.
\<close>

theorem fields_defaulted:
  "(success (fst (searchFlights k ax p)) \<longrightarrow>
      (\<exists>key data. ax (the_call key p) = Inr data \<and>
         list_all2 (drawn_server p) (surfaced data) (flights_of (fst (searchFlights k ax p)))))
   \<and> (success (fst (searchFlights_p001 k ax p)) \<longrightarrow>
      (\<exists>key data. ax (the_call_p001 key p) = Inr data \<and>
         list_all2 (drawn_p001 p) (surfaced data)
           (flights_of (fst (searchFlights_p001 k ax p)))))
   \<and> (legs \<noteq> [] \<longrightarrow> flightData_nullable tag p it (map Some legs) = flightData tag p it legs)
   \<and> (refs \<noteq> [] \<and> list_all named_object refs \<longrightarrow>
        (\<exists>fd. flightData_nullable tag p it refs = Inr fd))"
proof (intro conjI impI)
  assume s: "success (fst (searchFlights k ax p))"
  from searchFlights_success [OF s] obtain key data fs
    where ax: "ax (the_call key p) = Inr data" and pf: "parse_flights p data = Inr fs"
      and fl: "e_flights (fst (searchFlights k ax p)) = Some fs"
      and req: "\<not> missing_required p"
    by blast
  from parse_flights_char [OF pf] obtain bs os where fs: "fs = bs @ os"
    and b: "list_all2 (\<lambda>it fd. flightData ''best'' p it (legs_of it) = Inr fd)
         (filter has_legs (bests data)) bs"
    and o: "list_all2 (\<lambda>it fd. flightData ''other'' p it (legs_of it) = Inr fd)
         (filter has_legs (others data)) os"
    by blast
  have b': "list_all2 (drawn_server p) (filter has_legs (bests data)) bs"
    by (rule list_all2_filter_mono [OF b]) (rule flightData_drawn [OF _ _ req])
  have o': "list_all2 (drawn_server p) (filter has_legs (others data)) os"
    by (rule list_all2_filter_mono [OF o]) (rule flightData_drawn [OF _ _ req])
  from b' o' have "list_all2 (drawn_server p) (surfaced data) (bs @ os)"
    by (simp add: surfaced_def list_all2_appendI)
  with ax fl fs show "\<exists>key data. ax (the_call key p) = Inr data \<and>
         list_all2 (drawn_server p) (surfaced data) (flights_of (fst (searchFlights k ax p)))"
    by (auto simp: flights_of_def)
next
  assume s: "success (fst (searchFlights_p001 k ax p))"
  from searchFlights_p001_success [OF s] obtain key data
    where ax: "ax (the_call_p001 key p) = Inr data"
      and fl: "e_flights (fst (searchFlights_p001 k ax p)) = Some (parse_flights_p001 p data)"
      and req: "\<not> missing_required p"
    by blast
  from parse_flights_p001_char [of p data] obtain bs os
    where fs: "parse_flights_p001 p data = bs @ os"
    and b: "list_all2 (\<lambda>it fd. push_best_p001 p it [] = [fd]) (filter has_legs (bests data)) bs"
    and o: "list_all2 (\<lambda>it fd. push_other_p001 p it [] = [fd]) (filter has_legs (others data)) os"
    by blast
  have "list_all2 (drawn_p001 p) (filter has_legs (bests data) @ filter has_legs (others data))
          (bs @ os)"
    by (rule list_all2_append_same [OF b o]) (simp_all add: p001_drawn [OF _ req])
  with ax fl fs show "\<exists>key data. ax (the_call_p001 key p) = Inr data \<and>
         list_all2 (drawn_p001 p) (surfaced data)
           (flights_of (fst (searchFlights_p001 k ax p)))"
    by (auto simp: surfaced_def flights_of_def)
next
  assume "legs \<noteq> []"
  then show "flightData_nullable tag p it (map Some legs) = flightData tag p it legs"
    by (rule flightData_nullable_objects)
next
  assume "refs \<noteq> [] \<and> list_all named_object refs"
  then show "\<exists>fd. flightData_nullable tag p it refs = Inr fd"
    by (simp add: flightData_nullable_total)
qed

text \<open>
  The theorem at the answer whose two legs have every field missing, where both
  searches succeed.
\<close>

theorem fields_defaulted_witness:
  "success (fst (searchFlights (Some ''secret'') (stub bare_data) round_trip_request))
   \<and> success (fst (searchFlights_p001 (Some ''secret'') (stub bare_data) round_trip_request))
   \<and> [bare_leg, bare_leg] \<noteq> []
   \<and> [Some bare_leg, Some bare_leg] \<noteq> []
   \<and> list_all named_object [Some bare_leg, Some bare_leg]
   \<and> (\<exists>key data. stub bare_data (the_call key round_trip_request) = Inr data \<and>
         list_all2 (drawn_server round_trip_request) (surfaced data)
           (flights_of (fst (searchFlights (Some ''secret'') (stub bare_data) round_trip_request))))
   \<and> (\<exists>key data. stub bare_data (the_call_p001 key round_trip_request) = Inr data \<and>
         list_all2 (drawn_p001 round_trip_request) (surfaced data)
           (flights_of
             (fst (searchFlights_p001 (Some ''secret'') (stub bare_data) round_trip_request))))
   \<and> flightData_nullable ''best'' round_trip_request one_leg_trip (map Some [bare_leg, bare_leg])
       = flightData ''best'' round_trip_request one_leg_trip [bare_leg, bare_leg]
   \<and> (\<exists>fd. flightData_nullable ''best'' round_trip_request one_leg_trip
               [Some bare_leg, Some bare_leg] = Inr fd)"
proof -
  have h1: "[bare_leg, bare_leg] \<noteq> []" by simp
  have h2: "[Some bare_leg, Some bare_leg] \<noteq> []" by simp
  have h3: "list_all named_object [Some bare_leg, Some bare_leg]"
    by (simp add: named_object_def bare_leg_def includable_def dep_name_def opt_chain_def)
  note t = fields_defaulted [of "Some ''secret''" "stub bare_data" round_trip_request
      "[bare_leg, bare_leg]" "''best''" one_leg_trip "[Some bare_leg, Some bare_leg]"]
  note a = t [THEN conjunct1, THEN mp, OF bare_round_trip_succeeds]
  note b = t [THEN conjunct2, THEN conjunct1, THEN mp, OF bare_p001_succeeds]
  note c = t [THEN conjunct2, THEN conjunct2, THEN conjunct1, THEN mp, OF h1]
  note d = t [THEN conjunct2, THEN conjunct2, THEN conjunct2, THEN mp, OF conjI [OF h2 h3]]
  show ?thesis
    by (intro conjI bare_round_trip_succeeds bare_p001_succeeds h1 h2 h3 a b c d)
qed

text \<open>
  The claim as stated fails in two places. On the answer whose only itinerary has no
  \<open>carbon_emissions\<close>, part_001 surfaces \<open>carbon_emissions: null\<close> in its record. And on
  a legs array whose only element is \<open>null\<close> the loop body of server.js throws when it
  reads \<open>leg.airline\<close> (the itinerary argument supplies the price only).
\<close>

theorem missing_emissions_null_and_null_leg_throws:
  "carbon_emissions (surfaced bare_data ! 0) = None
   \<and> r_carbon_emissions
        (flights_of (fst (searchFlights_p001 (Some ''secret'') (stub bare_data) round_trip_request))
           ! 0) = Some Null
   \<and> flightData_nullable ''best'' one_way_request one_leg_trip [None]
       = Inl (TypeError (''Cannot read properties of null (reading '' @ [CHR 0x27]
                @ ''airline'' @ [CHR 0x27] @ '')''))"
  by (simp add: bare_data_def bare_leg_def stub_def round_trip_request_def one_way_request_def
        p001_defs flights_of_def surfaced_def bests_def others_def has_legs_def
        flightData_nullable_def leg_object_def Let_def)

subsection \<open>C7: which legs are the outbound and the return leg\<close>

text \<open>
  Claim C7, as amended. For an itinerary of at least two legs whose departure airport
  names are strings, arrays or missing, the outbound leg is the first leg whose
  departure code equals the requested origin or whose departure airport name includes
  it, else the first leg; the return leg is the first leg after index zero whose
  departure code equals the destination, whose arrival code equals the origin, or whose
  departure airport name includes the destination, else the last leg. In a round-trip
  search these two legs fill \<open>outbound\<close> and \<open>return\<close>.
\<close>

theorem leg_selection:
  assumes "2 \<le> length legs" and "list_all (\<lambda>l. includable (dep_name l)) legs"
  shows "outboundLeg p legs = Inr (selected_outbound p legs)
       \<and> returnLeg p legs = Inr (selected_return p legs)
       \<and> (truthy (isRoundTrip (return_date p)) \<longrightarrow>
            (\<exists>fd. flightData tag p it legs = Inr fd
               \<and> r_outbound fd
                   = Some (details (selected_outbound p legs) (val (origin p)) (val (destination p)))
               \<and> r_return fd
                   = Some (details (selected_return p legs) (val (destination p)) (val (origin p)))))"
proof -
  from assms(1) have ne: "legs \<noteq> []" by auto
  note ob = outboundLeg_selected [OF ne assms(2), of p]
  note rl = returnLeg_selected [OF ne assms(2), of p]
  from assms(1) ob rl show ?thesis
    by (simp add: flightData_def Let_def flight_of_def)
qed

text \<open>The theorem at the itinerary with city names, asked for by city.\<close>

theorem leg_selection_witness:
  "2 \<le> length city_legs \<and> list_all (\<lambda>l. includable (dep_name l)) city_legs
   \<and> truthy (isRoundTrip (return_date city_request))
   \<and> outboundLeg city_request city_legs = Inr (selected_outbound city_request city_legs)
   \<and> returnLeg city_request city_legs = Inr (selected_return city_request city_legs)
   \<and> selected_outbound city_request city_legs = city_legs ! 1
   \<and> selected_return city_request city_legs = city_legs ! 2"
proof -
  have h: "2 \<le> length city_legs" "list_all (\<lambda>l. includable (dep_name l)) city_legs"
    by (simp_all add: city_defs includable_def dep_name_def opt_chain_def)
  have s: "outboundLeg city_request city_legs = Inr (city_legs ! 1)"
    "returnLeg city_request city_legs = Inr (city_legs ! 2)"
    by (simp_all add: city_defs select_defs)
  have t: "truthy (isRoundTrip (return_date city_request))"
    by (simp add: city_request_def trim_def js_whitespace_def)
  from leg_selection [OF h, of city_request] h s t show ?thesis by simp
qed

text \<open>
  The claim as stated, with the airport codes alone, fails there: no departure code
  equals \<open>Mumbai\<close>, so the claim's outbound leg is the first one, while the code takes the
  second, whose airport name includes \<open>Mumbai\<close>; and the claim's return leg is the last
  one, while the code takes the third, whose airport name includes \<open>Delhi\<close>.
\<close>

theorem name_match_selects_other_leg:
  "outboundLeg city_request city_legs = Inr (city_legs ! 1)
   \<and> claimed_outbound city_request city_legs = city_legs ! 0
   \<and> returnLeg city_request city_legs = Inr (city_legs ! 2)
   \<and> claimed_return city_request city_legs = city_legs ! 3
   \<and> city_legs ! 0 \<noteq> city_legs ! 1 \<and> city_legs ! 2 \<noteq> city_legs ! 3"
  by (simp add: city_defs select_defs claimed_outbound_def claimed_return_def)

subsection \<open>C8: return_date in the outbound query\<close>

text \<open>
  Claim C8 says that the query carries \<open>return_date\<close> exactly when the request is
  classified round-trip. Lemma \<open>return_date_iff_round_trip\<close> above shows it for the query
  of server.js. The second program of part_000 (lines 303-312) sends
  \<open>return_date || undefined\<close> and no \<open>type\<close>: evaluated on a request whose \<open>return_date\<close>
  is the string \<open>"null"\<close>, or three spaces, both of them one-way, its query carries that
  string as \<open>return_date\<close>.
\<close>

theorem p000b_sends_return_date_unclassified:
  "\<not> spec_round_trip (return_date null_string_request)
   \<and> snd (searchFlights_p000b (Some ''secret'') (stub sample_data) null_string_request)
       = [the_call_p000b ''secret'' null_string_request]
   \<and> q_return_date (query (the_call_p000b ''secret'' null_string_request)) = Some (Str ''null'')
   \<and> \<not> spec_round_trip (return_date blank_string_request)
   \<and> snd (searchFlights_p000b (Some ''secret'') (stub sample_data) blank_string_request)
       = [the_call_p000b ''secret'' blank_string_request]
   \<and> q_return_date (query (the_call_p000b ''secret'' blank_string_request)) = Some (Str ''   '')"
  by (simp add: spec_round_trip_def js_whitespace_def null_string_request_def
        blank_string_request_def searchFlights_p000b_def configured_def stub_def
        the_call_p000b_def searchParams_p000b_def js_or_def)

subsection \<open>C9: best before other, in the provider's order\<close>

text \<open>
  Claim C9. In a successful result (server.js and part_001) the array \<open>flights\<close> is a
  block of records tagged \<open>best\<close> followed by a block tagged \<open>other\<close>; the first block
  holds, in the provider's order, the records of the itineraries of \<open>best_flights\<close> that
  have legs, the second those of the first five \<open>other_flights\<close>; and \<open>total_results\<close>
  is the length of \<open>flights\<close>.
\<close>

theorem best_before_other:
  "(success (fst (searchFlights k ax p)) \<longrightarrow>
      (\<exists>key data bs os. ax (the_call key p) = Inr data
         \<and> flights_of (fst (searchFlights k ax p)) = bs @ os
         \<and> list_all (\<lambda>fd. r_type fd = ''best'') bs
         \<and> list_all (\<lambda>fd. r_type fd = ''other'') os
         \<and> list_all2 (\<lambda>it fd. flightData ''best'' p it (legs_of it) = Inr fd)
              (filter has_legs (bests data)) bs
         \<and> list_all2 (\<lambda>it fd. flightData ''other'' p it (legs_of it) = Inr fd)
              (filter has_legs (others data)) os
         \<and> total_results (fst (searchFlights k ax p))
              = Some (length (flights_of (fst (searchFlights k ax p))))))
   \<and> (success (fst (searchFlights_p001 k ax p)) \<longrightarrow>
      (\<exists>key data bs os. ax (the_call_p001 key p) = Inr data
         \<and> flights_of (fst (searchFlights_p001 k ax p)) = bs @ os
         \<and> list_all (\<lambda>fd. r_type fd = ''best'') bs
         \<and> list_all (\<lambda>fd. r_type fd = ''other'') os
         \<and> list_all2 (\<lambda>it fd. push_best_p001 p it [] = [fd]) (filter has_legs (bests data)) bs
         \<and> list_all2 (\<lambda>it fd. push_other_p001 p it [] = [fd]) (filter has_legs (others data)) os
         \<and> total_results (fst (searchFlights_p001 k ax p))
              = Some (length (flights_of (fst (searchFlights_p001 k ax p))))))"
proof (intro conjI impI)
  assume "success (fst (searchFlights k ax p))"
  from searchFlights_success [OF this] obtain key data fs
    where ax: "ax (the_call key p) = Inr data" and pf: "parse_flights p data = Inr fs"
      and fl: "e_flights (fst (searchFlights k ax p)) = Some fs"
      and tr: "total_results (fst (searchFlights k ax p)) = Some (length fs)"
    by blast
  from parse_flights_char [OF pf] obtain bs os where fs: "fs = bs @ os"
    and b: "list_all2 (\<lambda>it fd. flightData ''best'' p it (legs_of it) = Inr fd)
         (filter has_legs (bests data)) bs"
    and o: "list_all2 (\<lambda>it fd. flightData ''other'' p it (legs_of it) = Inr fd)
         (filter has_legs (others data)) os"
    by blast
  have tb: "list_all (\<lambda>fd. r_type fd = ''best'') bs"
    by (rule list_all2_imp_list_all [OF b]) (rule flightData_type)
  have to: "list_all (\<lambda>fd. r_type fd = ''other'') os"
    by (rule list_all2_imp_list_all [OF o]) (rule flightData_type)
  from fl fs tr have "flights_of (fst (searchFlights k ax p)) = bs @ os"
    and "total_results (fst (searchFlights k ax p))
              = Some (length (flights_of (fst (searchFlights k ax p))))"
    by (simp_all add: flights_of_def)
  with ax tb to b o
  show "\<exists>key data bs os. ax (the_call key p) = Inr data
         \<and> flights_of (fst (searchFlights k ax p)) = bs @ os
         \<and> list_all (\<lambda>fd. r_type fd = ''best'') bs
         \<and> list_all (\<lambda>fd. r_type fd = ''other'') os
         \<and> list_all2 (\<lambda>it fd. flightData ''best'' p it (legs_of it) = Inr fd)
              (filter has_legs (bests data)) bs
         \<and> list_all2 (\<lambda>it fd. flightData ''other'' p it (legs_of it) = Inr fd)
              (filter has_legs (others data)) os
         \<and> total_results (fst (searchFlights k ax p))
              = Some (length (flights_of (fst (searchFlights k ax p))))"
    by blast
next
  assume "success (fst (searchFlights_p001 k ax p))"
  from searchFlights_p001_success [OF this] obtain key data
    where ax: "ax (the_call_p001 key p) = Inr data"
      and fl: "e_flights (fst (searchFlights_p001 k ax p)) = Some (parse_flights_p001 p data)"
      and tr: "total_results (fst (searchFlights_p001 k ax p))
                 = Some (length (parse_flights_p001 p data))"
    by blast
  from parse_flights_p001_char [of p data] obtain bs os
    where fs: "parse_flights_p001 p data = bs @ os"
    and b: "list_all2 (\<lambda>it fd. push_best_p001 p it [] = [fd]) (filter has_legs (bests data)) bs"
    and o: "list_all2 (\<lambda>it fd. push_other_p001 p it [] = [fd]) (filter has_legs (others data)) os"
    by blast
  have tb: "list_all (\<lambda>fd. r_type fd = ''best'') bs"
    by (rule list_all2_imp_list_all [OF b]) (simp add: push_best_p001_stops)
  have to: "list_all (\<lambda>fd. r_type fd = ''other'') os"
    by (rule list_all2_imp_list_all [OF o]) (simp add: push_other_p001_stops)
  from fl fs tr have "flights_of (fst (searchFlights_p001 k ax p)) = bs @ os"
    and "total_results (fst (searchFlights_p001 k ax p))
              = Some (length (flights_of (fst (searchFlights_p001 k ax p))))"
    by (simp_all add: flights_of_def)
  with ax tb to b o
  show "\<exists>key data bs os. ax (the_call_p001 key p) = Inr data
         \<and> flights_of (fst (searchFlights_p001 k ax p)) = bs @ os
         \<and> list_all (\<lambda>fd. r_type fd = ''best'') bs
         \<and> list_all (\<lambda>fd. r_type fd = ''other'') os
         \<and> list_all2 (\<lambda>it fd. push_best_p001 p it [] = [fd]) (filter has_legs (bests data)) bs
         \<and> list_all2 (\<lambda>it fd. push_other_p001 p it [] = [fd]) (filter has_legs (others data)) os
         \<and> total_results (fst (searchFlights_p001 k ax p))
              = Some (length (flights_of (fst (searchFlights_p001 k ax p))))"
    by blast
qed

text \<open>The theorem at the sample answer, where both searches succeed.\<close>

theorem best_before_other_witness:
  "success (fst (searchFlights (Some ''secret'') (stub sample_data) round_trip_request))
   \<and> success (fst (searchFlights_p001 (Some ''secret'') (stub sample_data) round_trip_request))
   \<and> (\<exists>key data bs os. stub sample_data (the_call key round_trip_request) = Inr data
         \<and> flights_of (fst (searchFlights (Some ''secret'') (stub sample_data) round_trip_request))
              = bs @ os
         \<and> list_all (\<lambda>fd. r_type fd = ''best'') bs
         \<and> list_all (\<lambda>fd. r_type fd = ''other'') os
         \<and> list_all2 (\<lambda>it fd. flightData ''best'' round_trip_request it (legs_of it) = Inr fd)
              (filter has_legs (bests data)) bs
         \<and> list_all2 (\<lambda>it fd. flightData ''other'' round_trip_request it (legs_of it) = Inr fd)
              (filter has_legs (others data)) os
         \<and> total_results (fst (searchFlights (Some ''secret'') (stub sample_data) round_trip_request))
              = Some (length (flights_of
                  (fst (searchFlights (Some ''secret'') (stub sample_data) round_trip_request)))))
   \<and> (\<exists>key data bs os. stub sample_data (the_call_p001 key round_trip_request) = Inr data
         \<and> flights_of (fst (searchFlights_p001 (Some ''secret'') (stub sample_data) round_trip_request))
              = bs @ os
         \<and> list_all (\<lambda>fd. r_type fd = ''best'') bs
         \<and> list_all (\<lambda>fd. r_type fd = ''other'') os
         \<and> list_all2 (\<lambda>it fd. push_best_p001 round_trip_request it [] = [fd])
              (filter has_legs (bests data)) bs
         \<and> list_all2 (\<lambda>it fd. push_other_p001 round_trip_request it [] = [fd])
              (filter has_legs (others data)) os
         \<and> total_results
              (fst (searchFlights_p001 (Some ''secret'') (stub sample_data) round_trip_request))
              = Some (length (flights_of
                  (fst (searchFlights_p001 (Some ''secret'') (stub sample_data) round_trip_request)))))"
proof -
  note t = best_before_other [of "Some ''secret''" "stub sample_data" round_trip_request]
  note a = t [THEN conjunct1, THEN mp, OF sample_round_trip_succeeds]
  note b = t [THEN conjunct2, THEN mp, OF sample_p001_succeeds]
  show ?thesis by (intro conjI sample_round_trip_succeeds sample_p001_succeeds a b)
qed

subsection \<open>C10: itineraries without legs are skipped\<close>

text \<open>
  Claim C10. In server.js, the first program of part_000 and part_001 the loop body
  leaves the array \<open>flights\<close> as it is, and throws nothing, on an itinerary whose
  \<open>flights\<close> is missing or empty; \<open>total_results\<close> of a successful search counts the
  itineraries with legs among \<open>best_flights\<close> and the first five \<open>other_flights\<close>; and it
  can be smaller than the number of itineraries returned: the sample answer holds four
  and yields two records.
\<close>

theorem no_legs_skipped:
  "((flights it = None \<or> flights it = Some []) \<longrightarrow>
       push_flight tag p it acc = Inr acc \<and> push_p000a tag it acc = acc
       \<and> push_best_p001 p it acc = acc \<and> push_other_p001 p it acc = acc)
   \<and> (success (fst (searchFlights k ax p)) \<longrightarrow>
        (\<exists>key data. ax (the_call key p) = Inr data
           \<and> total_results (fst (searchFlights k ax p)) = Some (length (surfaced data))))
   \<and> (success (fst (searchFlights_p000a k ax p)) \<longrightarrow>
        (\<exists>key data. ax (the_call_p000a key p) = Inr data
           \<and> total_results (fst (searchFlights_p000a k ax p)) = Some (length (surfaced data))))
   \<and> (success (fst (searchFlights_p001 k ax p)) \<longrightarrow>
        (\<exists>key data. ax (the_call_p001 key p) = Inr data
           \<and> total_results (fst (searchFlights_p001 k ax p)) = Some (length (surfaced data))))
   \<and> total_results (fst (searchFlights (Some ''secret'') (stub sample_data) one_way_request))
        = Some 2
   \<and> length (bests sample_data @ others sample_data) = 4"
proof (intro conjI impI)
  assume "flights it = None \<or> flights it = Some []"
  then have n: "\<not> has_legs it" by (simp add: has_legs_iff)
  then show "push_flight tag p it acc = Inr acc" by (rule push_flight_skip)
  from push_p000a_app [of tag it acc] push_p000a_skip [OF n, of tag]
  show "push_p000a tag it acc = acc" by simp
  from push_best_p001_app [of p it acc] push_best_p001_skip [OF n, of p]
  show "push_best_p001 p it acc = acc" by simp
  from push_other_p001_app [of p it acc] push_other_p001_skip [OF n, of p]
  show "push_other_p001 p it acc = acc" by simp
next
  assume "success (fst (searchFlights k ax p))"
  from searchFlights_success [OF this] obtain key data fs
    where ax: "ax (the_call key p) = Inr data" and pf: "parse_flights p data = Inr fs"
      and tr: "total_results (fst (searchFlights k ax p)) = Some (length fs)"
    by blast
  from parse_flights_char [OF pf] obtain bs os where fs: "fs = bs @ os"
    and b: "list_all2 (\<lambda>it fd. flightData ''best'' p it (legs_of it) = Inr fd)
         (filter has_legs (bests data)) bs"
    and o: "list_all2 (\<lambda>it fd. flightData ''other'' p it (legs_of it) = Inr fd)
         (filter has_legs (others data)) os"
    by blast
  from list_all2_lengthD [OF b] list_all2_lengthD [OF o] fs
  have "length fs = length (surfaced data)"
    by (simp add: surfaced_def)
  with ax tr show "\<exists>key data. ax (the_call key p) = Inr data
           \<and> total_results (fst (searchFlights k ax p)) = Some (length (surfaced data))"
    by auto
next
  assume "success (fst (searchFlights_p000a k ax p))"
  from searchFlights_p000a_success [OF this] obtain key data
    where ax: "ax (the_call_p000a key p) = Inr data"
      and tr: "total_results (fst (searchFlights_p000a k ax p))
                 = Some (length (parse_flights_p000a data))"
    by blast
  from parse_flights_p000a_char [of data] obtain bs os
    where fs: "parse_flights_p000a data = bs @ os"
    and b: "list_all2 (\<lambda>it fd. push_p000a ''best'' it [] = [fd]) (filter has_legs (bests data)) bs"
    and o: "list_all2 (\<lambda>it fd. push_p000a ''other'' it [] = [fd]) (filter has_legs (others data)) os"
    by blast
  from list_all2_lengthD [OF b] list_all2_lengthD [OF o] fs
  have "length (parse_flights_p000a data) = length (surfaced data)"
    by (simp add: surfaced_def)
  with ax tr show "\<exists>key data. ax (the_call_p000a key p) = Inr data
           \<and> total_results (fst (searchFlights_p000a k ax p)) = Some (length (surfaced data))"
    by auto
next
  assume "success (fst (searchFlights_p001 k ax p))"
  from searchFlights_p001_success [OF this] obtain key data
    where ax: "ax (the_call_p001 key p) = Inr data"
      and tr: "total_results (fst (searchFlights_p001 k ax p))
                 = Some (length (parse_flights_p001 p data))"
    by blast
  from parse_flights_p001_char [of p data] obtain bs os
    where fs: "parse_flights_p001 p data = bs @ os"
    and b: "list_all2 (\<lambda>it fd. push_best_p001 p it [] = [fd]) (filter has_legs (bests data)) bs"
    and o: "list_all2 (\<lambda>it fd. push_other_p001 p it [] = [fd]) (filter has_legs (others data)) os"
    by blast
  from list_all2_lengthD [OF b] list_all2_lengthD [OF o] fs
  have "length (parse_flights_p001 p data) = length (surfaced data)"
    by (simp add: surfaced_def)
  with ax tr show "\<exists>key data. ax (the_call_p001 key p) = Inr data
           \<and> total_results (fst (searchFlights_p001 k ax p)) = Some (length (surfaced data))"
    by auto
next
  show "total_results (fst (searchFlights (Some ''secret'') (stub sample_data) one_way_request))
        = Some 2"
    by (simp add: eval_defs)
  show "length (bests sample_data @ others sample_data) = 4"
    by (simp add: bests_def others_def sample_data_def)
qed

text \<open>The theorem at the sample answer and its itinerary with an empty \<open>flights\<close>.\<close>

theorem no_legs_skipped_witness:
  "(flights no_legs_trip = None \<or> flights no_legs_trip = Some [])
   \<and> success (fst (searchFlights (Some ''secret'') (stub sample_data) one_way_request))
   \<and> success (fst (searchFlights_p000a (Some ''secret'') (stub sample_data) one_way_request))
   \<and> success (fst (searchFlights_p001 (Some ''secret'') (stub sample_data) one_way_request))
   \<and> push_flight ''best'' one_way_request no_legs_trip [] = Inr []
   \<and> push_p000a ''best'' no_legs_trip [] = []
   \<and> push_best_p001 one_way_request no_legs_trip [] = []
   \<and> push_other_p001 one_way_request no_legs_trip [] = []
   \<and> (\<exists>key data. stub sample_data (the_call key one_way_request) = Inr data
           \<and> total_results (fst (searchFlights (Some ''secret'') (stub sample_data) one_way_request))
               = Some (length (surfaced data)))
   \<and> (\<exists>key data. stub sample_data (the_call_p000a key one_way_request) = Inr data
           \<and> total_results
                (fst (searchFlights_p000a (Some ''secret'') (stub sample_data) one_way_request))
               = Some (length (surfaced data)))
   \<and> (\<exists>key data. stub sample_data (the_call_p001 key one_way_request) = Inr data
           \<and> total_results
                (fst (searchFlights_p001 (Some ''secret'') (stub sample_data) one_way_request))
               = Some (length (surfaced data)))"
proof -
  have h: "flights no_legs_trip = None \<or> flights no_legs_trip = Some []"
    by (simp add: no_legs_trip_def)
  note t = no_legs_skipped [of no_legs_trip "''best''" one_way_request "[]" "Some ''secret''"
      "stub sample_data"]
  note a = t [THEN conjunct1, THEN mp, OF h]
  note b = t [THEN conjunct2, THEN conjunct1, THEN mp, OF sample_one_way_succeeds]
  note c = t [THEN conjunct2, THEN conjunct2, THEN conjunct1, THEN mp,
      OF sample_one_way_p000a_succeeds]
  note d = t [THEN conjunct2, THEN conjunct2, THEN conjunct2, THEN conjunct1, THEN mp,
      OF sample_one_way_p001_succeeds]
  note a1 = a [THEN conjunct1]
  note a2 = a [THEN conjunct2, THEN conjunct1]
  note a3 = a [THEN conjunct2, THEN conjunct2, THEN conjunct1]
  note a4 = a [THEN conjunct2, THEN conjunct2, THEN conjunct2]
  show ?thesis
    by (intro conjI h sample_one_way_succeeds sample_one_way_p000a_succeeds
          sample_one_way_p001_succeeds a1 a2 a3 a4 b c d)
qed

end
